theory Spec2Isabelle
  imports Main "HOL-Library.Sublist"
begin

section \<open>The Ollama provider: data model\<close>

text \<open>
  The development follows \<^verbatim>\<open>packages/core/src/providers/ollama/OllamaProvider.ts\<close>.
  Text is a list of characters. JavaScript values are read at the types the source
  declares for them; where the source tests a value for truthiness (\<^verbatim>\<open>if (x)\<close>,
  \<^verbatim>\<open>x || d\<close>, \<^verbatim>\<open>x && y\<close>) the test is written out: an absent value, the empty
  string and the number zero are falsy.
\<close>

text \<open>
  Modelled from the spec: the declaration of \<^verbatim>\<open>ToolFormat\<close> (\<^verbatim>\<open>tools/IToolFormatter.js\<close>)
  is not among the sources. The spec calls it the function-calling schema dialect a
  model family expects; the source writes its values as string literals, so it is a
  string here.
\<close>

type_synonym ToolFormat = string

definition truthy :: "string option \<Rightarrow> bool" where
  "truthy v = (case v of None \<Rightarrow> False | Some s \<Rightarrow> s \<noteq> [])"

definition truthy_num :: "int option \<Rightarrow> bool" where
  "truthy_num v = (case v of None \<Rightarrow> False | Some n \<Rightarrow> n \<noteq> 0)"

text \<open>\<^verbatim>\<open>v || d\<close> on an optional string and on an optional number.\<close>

definition or_str :: "string option \<Rightarrow> string \<Rightarrow> string" where
  "or_str v d = (case v of None \<Rightarrow> d | Some s \<Rightarrow> if s = [] then d else s)"

definition or_num :: "int option \<Rightarrow> int \<Rightarrow> int" where
  "or_num v d = (case v of None \<Rightarrow> d | Some n \<Rightarrow> if n = 0 then d else n)"

text \<open>\<^verbatim>\<open>hay.includes(needle)\<close>: the needle occurs as a contiguous piece of the text.\<close>

definition str_includes :: "string \<Rightarrow> string \<Rightarrow> bool" where
  "str_includes hay needle = sublist needle hay"

text \<open>
  Modelled from the spec: the declaration of \<^verbatim>\<open>IProviderConfig\<close>
  (\<^verbatim>\<open>types/IProviderConfig.js\<close>) is not among the sources. The spec speaks of a
  configuration-supplied per-provider override; the provider reads only
  \<^verbatim>\<open>providerToolFormatOverrides\<close>, an optional table from provider name to tool format.
\<close>

record IProviderConfig =
  providerToolFormatOverrides :: "(string \<rightharpoonup> ToolFormat) option"

record OllamaProvider =
  name :: string
  baseURL :: string
  currentModel :: string
  config :: "IProviderConfig option"
  toolFormatOverride :: "ToolFormat option"
  apiKey :: "string option"
  tokenUrl :: "string option"
  cachedToken :: "string option"
  tokenExpiry :: "int option"

definition new_OllamaProvider ::
  "string option \<Rightarrow> IProviderConfig option \<Rightarrow> string option \<Rightarrow> OllamaProvider" where
  "new_OllamaProvider base cfg key =
     \<lparr> name = ''ollama'',
       baseURL = or_str base ''http://localhost:11434'',
       currentModel = ''llama2'',
       config = cfg,
       toolFormatOverride = None,
       apiKey = key,
       tokenUrl = None,
       cachedToken = None,
       tokenExpiry = None \<rparr>"

subsection \<open>Setters\<close>

definition setModel :: "string \<Rightarrow> OllamaProvider \<Rightarrow> OllamaProvider" where
  "setModel modelId p = p\<lparr>currentModel := modelId\<rparr>"

definition getCurrentModel :: "OllamaProvider \<Rightarrow> string" where
  "getCurrentModel p = currentModel p"

definition setApiKey :: "string \<Rightarrow> OllamaProvider \<Rightarrow> OllamaProvider" where
  "setApiKey k p = p\<lparr>apiKey := Some k\<rparr>"

definition setBaseUrl :: "string option \<Rightarrow> OllamaProvider \<Rightarrow> OllamaProvider" where
  "setBaseUrl b p = p\<lparr>baseURL := or_str b ''http://localhost:11434''\<rparr>"

definition setConfig :: "IProviderConfig \<Rightarrow> OllamaProvider \<Rightarrow> OllamaProvider" where
  "setConfig c p = p\<lparr>config := Some c\<rparr>"

text \<open>\<^verbatim>\<open>this.toolFormatOverride = format || undefined\<close>\<close>

definition setToolFormatOverride :: "ToolFormat option \<Rightarrow> OllamaProvider \<Rightarrow> OllamaProvider" where
  "setToolFormatOverride format p =
     p\<lparr>toolFormatOverride := (if truthy format then format else None)\<rparr>"

definition setTokenUrl :: "string \<Rightarrow> OllamaProvider \<Rightarrow> OllamaProvider" where
  "setTokenUrl u p = p\<lparr>tokenUrl := Some u, cachedToken := None, tokenExpiry := None\<rparr>"

definition getTokenUrl :: "OllamaProvider \<Rightarrow> string option" where
  "getTokenUrl p = tokenUrl p"

definition clearCachedToken :: "OllamaProvider \<Rightarrow> OllamaProvider" where
  "clearCachedToken p = p\<lparr>cachedToken := None, tokenExpiry := None\<rparr>"

subsection \<open>Tool format\<close>

text \<open>\<^verbatim>\<open>this.config?.providerToolFormatOverrides?.[this.name]\<close>\<close>

definition configToolFormat :: "OllamaProvider \<Rightarrow> ToolFormat option" where
  "configToolFormat p =
     (case config p of
        None \<Rightarrow> None
      | Some c \<Rightarrow>
          (case providerToolFormatOverrides c of
             None \<Rightarrow> None
           | Some table \<Rightarrow> table (name p)))"

definition getToolFormat :: "OllamaProvider \<Rightarrow> ToolFormat" where
  "getToolFormat p =
     (if truthy (toolFormatOverride p) then the (toolFormatOverride p)
      else if truthy (configToolFormat p) then the (configToolFormat p)
      else if str_includes (currentModel p) ''llama'' then ''llama''
      else if str_includes (currentModel p) ''deepseek'' then ''deepseek''
      else if str_includes (currentModel p) ''qwen'' then ''qwen''
      else if str_includes (currentModel p) ''hermes'' then ''hermes''
      else if str_includes (currentModel p) ''gemma'' then ''gemma''
      else ''llama'')"

text \<open>
  The resolution order in the words of the specification: the manual override, then the
  configured override for this provider, then the first family of the table whose name
  occurs in the model id, then the default.
\<close>

definition known_families :: "ToolFormat list" where
  "known_families = [''llama'', ''deepseek'', ''qwen'', ''hermes'', ''gemma'']"

definition default_dialect :: ToolFormat where
  "default_dialect = ''llama''"

definition resolveToolFormat_spec ::
  "ToolFormat option \<Rightarrow> ToolFormat option \<Rightarrow> string \<Rightarrow> ToolFormat" where
  "resolveToolFormat_spec manual configured modelId =
     (case manual of
        Some f \<Rightarrow> f
      | None \<Rightarrow>
          (case configured of
             Some f \<Rightarrow> f
           | None \<Rightarrow>
               (case find (\<lambda>family. sublist family modelId) known_families of
                  Some family \<Rightarrow> family
                | None \<Rightarrow> default_dialect)))"

text \<open>An override counts as set when it is present and not the empty string.\<close>

definition set_override :: "ToolFormat option \<Rightarrow> ToolFormat option" where
  "set_override v = (if truthy v then v else None)"

section \<open>The network, as the provider sees it\<close>

text \<open>
  A call of \<^verbatim>\<open>fetch\<close> either rejects with an error or resolves to a response. Of a
  response the provider reads the status, the reason phrase, the body as text, the body
  as a decoded JSON value (an error when \<^verbatim>\<open>json()\<close> rejects) and the body as a stream
  of chunks. \<^verbatim>\<open>response.ok\<close> is true for the statuses 200 to 299. A stream is the
  list of chunks its reader delivers, each chunk being the text the streaming decoder
  makes of it, and then either the end of the stream or a failed read.
\<close>

datatype error = Error string

datatype stream_end = EndOfStream | ReadFailed error

record byte_stream =
  chunks :: "string list"
  ending :: stream_end

record 'j response =
  status :: nat
  statusText :: string
  text_of :: string
  json_of :: "error + 'j"
  body :: "byte_stream option"

definition ok :: "('j, 'x) response_scheme \<Rightarrow> bool" where
  "ok r = (200 \<le> status r \<and> status r \<le> 299)"

datatype 'j fetch_result = Rejected error | Resolved "'j response"

text \<open>Every request the provider sends is recorded: URL, method and headers.\<close>

record request =
  url :: string
  http_method :: string
  headers :: "(string \<times> string) list"

text \<open>A number inside a template literal: the decimal digits of a natural number.\<close>

definition digit_char :: "nat \<Rightarrow> char" where
  "digit_char d = char_of (48 + d)"

fun show_nat :: "nat \<Rightarrow> string" where
  "show_nat n = (if n < 10 then [digit_char n] else show_nat (n div 10) @ [digit_char (n mod 10)])"

declare show_nat.simps [simp del]

section \<open>Bearer tokens\<close>

text \<open>
  The value \<^verbatim>\<open>response.json()\<close> gives for the token endpoint: a bare string, an
  object (of which \<^verbatim>\<open>access_token\<close>, \<^verbatim>\<open>token\<close> and \<^verbatim>\<open>expires_in\<close> are read), or any
  other JSON value. On the last, the source either fails to read a property of
  \<^verbatim>\<open>null\<close> or finds neither property and throws; both end in the same handler.
\<close>

record token_object =
  access_token :: "string option"
  token :: "string option"
  expires_in :: "int option"

datatype token_data = TokenString string | TokenObject token_object | TokenOther

text \<open>
  What a token request meets: the clock when the cache is tested, the answer of the
  token endpoint should it be asked, and the clock when the expiry is stored. The clock
  is \<^verbatim>\<open>Date.now()\<close>, in milliseconds since the epoch.
\<close>

record token_env =
  now_check :: nat
  token_fetch :: "token_data fetch_result"
  now_store :: nat

text \<open>The token and \<^verbatim>\<open>expires_in\<close> of a token answer; an error when the format is not known.\<close>

definition read_token :: "token_data \<Rightarrow> error + (string \<times> int option)" where
  "read_token tokenData =
     (case tokenData of
        TokenString s \<Rightarrow> Inr (s, None)
      | TokenObject obj \<Rightarrow>
          if truthy (access_token obj) then Inr (the (access_token obj), expires_in obj)
          else if truthy (token obj) then Inr (the (token obj), expires_in obj)
          else Inl (Error ''Invalid token response format'')
      | TokenOther \<Rightarrow> Inl (Error ''Invalid token response format''))"

definition token_request :: "string \<Rightarrow> request" where
  "token_request u =
     \<lparr> url = u, http_method = ''GET'', headers = [(''Content-Type'', ''application/json'')] \<rparr>"

text \<open>The body of the \<^verbatim>\<open>try\<close> block: the token and the provider with the token cached.\<close>

definition fetch_token :: "token_env \<Rightarrow> OllamaProvider \<Rightarrow> error + (string \<times> OllamaProvider)" where
  "fetch_token env p =
     (case token_fetch env of
        Rejected e \<Rightarrow> Inl e
      | Resolved r \<Rightarrow>
          if \<not> ok r then
            Inl (Error (''Failed to fetch token: '' @ show_nat (status r) @ '' '' @ statusText r))
          else
            (case json_of r of
               Inl e \<Rightarrow> Inl e
             | Inr tokenData \<Rightarrow>
                 (case read_token tokenData of
                    Inl e \<Rightarrow> Inl e
                  | Inr (tok, expiresIn) \<Rightarrow>
                      Inr (tok,
                           p\<lparr> cachedToken := Some tok,
                              tokenExpiry :=
                                Some (if truthy_num expiresIn
                                      then int (now_store env) + the expiresIn * 1000
                                      else int (now_store env) + 3600 * 1000) \<rparr>))))"

text \<open>
  \<^verbatim>\<open>getBearerToken\<close> returns the token (if any), the provider after the call and the
  requests it sent.
\<close>

definition getBearerToken ::
  "token_env \<Rightarrow> OllamaProvider \<Rightarrow> string option \<times> OllamaProvider \<times> request list" where
  "getBearerToken env p =
     (if \<not> truthy (tokenUrl p) then (apiKey p, p, [])
      else if truthy (cachedToken p) \<and> truthy_num (tokenExpiry p)
              \<and> int (now_check env) < the (tokenExpiry p) - 300000
           then (cachedToken p, p, [])
      else
        (case fetch_token env p of
           Inr (tok, p') \<Rightarrow> (Some tok, p', [token_request (the (tokenUrl p))])
         | Inl e \<Rightarrow> (apiKey p, p, [token_request (the (tokenUrl p))])))"

text \<open>Two token requests one after the other, the second on the provider the first left.\<close>

definition two_token_requests ::
  "token_env \<Rightarrow> token_env \<Rightarrow> OllamaProvider
     \<Rightarrow> (string option \<times> string option) \<times> OllamaProvider \<times> request list" where
  "two_token_requests env1 env2 p =
     (case getBearerToken env1 p of
        (t1, p1, reqs1) \<Rightarrow>
          (case getBearerToken env2 p1 of
             (t2, p2, reqs2) \<Rightarrow> ((t1, t2), p2, reqs1 @ reqs2)))"

definition auth_headers :: "string option \<Rightarrow> (string \<times> string) list" where
  "auth_headers bearerToken =
     [(''Content-Type'', ''application/json'')]
     @ (if truthy bearerToken then [(''Authorization'', ''Bearer '' @ the bearerToken)] else [])"

section \<open>Listing models\<close>

text \<open>
  Of an entry of \<^verbatim>\<open>/api/tags\<close> the provider reads the name only. The answer is an
  object whose \<^verbatim>\<open>models\<close> may be absent.
\<close>

record OllamaModel =
  ollama_name :: string

record tags_data =
  models :: "OllamaModel list option"

text \<open>
  Modelled from the spec: the declaration of \<^verbatim>\<open>IModel\<close> (\<^verbatim>\<open>../IModel.js\<close>) is not
  among the sources. An entry of the model list has the fields that the object literals
  of \<^verbatim>\<open>getModels\<close> give it: \<^verbatim>\<open>id\<close>, \<^verbatim>\<open>name\<close>, \<^verbatim>\<open>provider\<close>,
  \<^verbatim>\<open>supportedToolFormats\<close>, \<^verbatim>\<open>contextWindow\<close> and \<^verbatim>\<open>maxOutputTokens\<close>.
\<close>

record IModel =
  model_id :: string
  model_name :: string
  provider :: string
  supportedToolFormats :: "ToolFormat list"
  contextWindow :: int
  maxOutputTokens :: int

definition contextWindows :: "(string \<times> int) list" where
  "contextWindows =
     [(''llama2'', 4096),
      (''llama2:7b'', 4096),
      (''llama2:13b'', 4096),
      (''llama2:70b'', 4096),
      (''codellama'', 100000),
      (''codellama:7b'', 100000),
      (''codellama:13b'', 100000),
      (''codellama:34b'', 100000),
      (''deepseek-coder'', 16384),
      (''deepseek-coder:6.7b'', 16384),
      (''deepseek-coder:33b'', 16384),
      (''qwen2.5-coder'', 32768),
      (''qwen2.5-coder:7b'', 32768),
      (''qwen2.5-coder:32b'', 32768),
      (''hermes-coder'', 8192),
      (''gemma2-coder'', 8192)]"

definition getContextWindowForModel :: "string \<Rightarrow> int" where
  "getContextWindowForModel modelName = or_num (map_of contextWindows modelName) 4096"

definition fallback_models :: "OllamaProvider \<Rightarrow> IModel list" where
  "fallback_models p =
     [\<lparr> model_id = ''llama2'', model_name = ''llama2'', provider = name p,
        supportedToolFormats = [''llama''], contextWindow = 4096, maxOutputTokens = 4096 \<rparr>,
      \<lparr> model_id = ''llama2:13b'', model_name = ''llama2:13b'', provider = name p,
        supportedToolFormats = [''llama''], contextWindow = 4096, maxOutputTokens = 4096 \<rparr>,
      \<lparr> model_id = ''llama2:70b'', model_name = ''llama2:70b'', provider = name p,
        supportedToolFormats = [''llama''], contextWindow = 4096, maxOutputTokens = 4096 \<rparr>,
      \<lparr> model_id = ''codellama'', model_name = ''codellama'', provider = name p,
        supportedToolFormats = [''llama''], contextWindow = 100000, maxOutputTokens = 4096 \<rparr>,
      \<lparr> model_id = ''deepseek-coder'', model_name = ''deepseek-coder'', provider = name p,
        supportedToolFormats = [''deepseek''], contextWindow = 16384, maxOutputTokens = 4096 \<rparr>,
      \<lparr> model_id = ''qwen2.5-coder'', model_name = ''qwen2.5-coder'', provider = name p,
        supportedToolFormats = [''qwen''], contextWindow = 32768, maxOutputTokens = 4096 \<rparr>]"

definition tags_request :: "OllamaProvider \<Rightarrow> string option \<Rightarrow> request" where
  "tags_request p bearerToken =
     \<lparr> url = baseURL p @ ''/api/tags'', http_method = ''GET'', headers = auth_headers bearerToken \<rparr>"

text \<open>The \<^verbatim>\<open>try\<close> block of \<^verbatim>\<open>getModels\<close>, after the bearer token is there.\<close>

definition list_models :: "tags_data fetch_result \<Rightarrow> OllamaProvider \<Rightarrow> error + IModel list" where
  "list_models tags_fetch p =
     (case tags_fetch of
        Rejected e \<Rightarrow> Inl e
      | Resolved r \<Rightarrow>
          if \<not> ok r then Inl (Error (''Failed to fetch models: '' @ statusText r))
          else
            (case json_of r of
               Inl e \<Rightarrow> Inl e
             | Inr data \<Rightarrow>
                 Inr (map (\<lambda>model.
                            \<lparr> model_id = ollama_name model,
                              model_name = ollama_name model,
                              provider = name p,
                              supportedToolFormats =
                                [''llama'', ''deepseek'', ''qwen'', ''hermes'', ''gemma''],
                              contextWindow = getContextWindowForModel (ollama_name model),
                              maxOutputTokens = 4096 \<rparr>)
                          (case models data of None \<Rightarrow> [] | Some ms \<Rightarrow> ms))))"

text \<open>
  \<^verbatim>\<open>getModels\<close>: the result is what the caller receives, an error if the call raised;
  with it the provider after the call and the requests sent.
\<close>

definition getModels ::
  "token_env \<Rightarrow> tags_data fetch_result \<Rightarrow> OllamaProvider
     \<Rightarrow> (error + IModel list) \<times> OllamaProvider \<times> request list" where
  "getModels env tags_fetch p =
     (case getBearerToken env p of
        (bearerToken, p', reqs) \<Rightarrow>
          (case list_models tags_fetch p' of
             Inr ms \<Rightarrow> (Inr ms, p', reqs @ [tags_request p' bearerToken])
           | Inl e \<Rightarrow> (Inr (fallback_models p'), p', reqs @ [tags_request p' bearerToken])))"

text \<open>A transport failure of a request: the fetch rejects, or the answer is not OK.\<close>

definition transport_failure :: "'j fetch_result \<Rightarrow> bool" where
  "transport_failure f = (case f of Rejected e \<Rightarrow> True | Resolved r \<Rightarrow> \<not> ok r)"

section \<open>Chat completion\<close>

subsection \<open>Messages\<close>

text \<open>
  Modelled from the spec: the declaration of \<^verbatim>\<open>IMessage\<close> (\<^verbatim>\<open>../IMessage.js\<close>) is
  not among the sources. The spec gives the outward message as role, content, tool
  calls and usage; a tool call as an id, the type \<^verbatim>\<open>function\<close> and a function with a
  name and its arguments as raw JSON text; the usage as prompt, completion and total
  tokens.
\<close>

record tool_function =
  fn_name :: string
  arguments :: string

record tool_call =
  call_id :: string
  call_type :: string
  call_function :: tool_function

record usage_stats =
  prompt_tokens :: int
  completion_tokens :: int
  total_tokens :: int

text \<open>
  The \<^verbatim>\<open>message\<close> of a response record, and the message the generator yields, which
  has the same three fields and an optional \<^verbatim>\<open>usage\<close>.
\<close>

record OllamaMessage =
  role :: string
  content :: string
  tool_calls :: "tool_call list option"

record IMessage = OllamaMessage +
  usage :: "usage_stats option"

text \<open>Of a response record the generator reads these fields.\<close>

record OllamaChatResponse =
  message :: OllamaMessage
  done_flag :: bool
  prompt_eval_count :: "int option"
  eval_count :: "int option"

text \<open>
  \<^verbatim>\<open>JSON.parse(line)\<close>, read at the type \<^verbatim>\<open>OllamaChatResponse\<close> the source gives it, is
  a parameter of the model: \<open>None\<close> when the line makes the \<^verbatim>\<open>try\<close> block throw,
  as a line that is not JSON does.
\<close>

type_synonym json_parser = "string \<Rightarrow> OllamaChatResponse option"

subsection \<open>The request\<close>

text \<open>
  Modelled from the spec: the declaration of \<^verbatim>\<open>ITool\<close> (\<^verbatim>\<open>../ITool.js\<close>) is not
  among the sources. The spec gives a tool of the request as a function with a name, an
  optional description and parameters; the parameters, an object, are kept as text.
\<close>

record ITool =
  tool_name :: string
  tool_description :: "string option"
  tool_parameters :: string

text \<open>
  The request body. The constant \<^verbatim>\<open>options\<close> object (temperature, top_p, num_predict)
  is the same in every request and is left out.
\<close>

record OllamaChatRequest =
  req_model :: string
  req_messages :: "(string \<times> string) list"
  req_stream :: bool
  req_tools :: "ITool list option"
  req_tool_choice :: "string option"

record chat_request = request +
  req_body :: OllamaChatRequest

definition build_request_body ::
  "OllamaProvider \<Rightarrow> IMessage list \<Rightarrow> ITool list option \<Rightarrow> OllamaChatRequest" where
  "build_request_body p messages tools =
     (let requestBody =
            \<lparr> req_model = currentModel p,
              req_messages = map (\<lambda>msg. (role msg, content msg)) messages,
              req_stream = True,
              req_tools = None,
              req_tool_choice = None \<rparr>
      in case tools of
           None \<Rightarrow> requestBody
         | Some ts \<Rightarrow>
             if length ts > 0
             then requestBody\<lparr> req_tools := Some ts, req_tool_choice := Some ''auto'' \<rparr>
             else requestBody)"

subsection \<open>Lines\<close>

text \<open>\<^verbatim>\<open>text.split(sep)\<close> for a one-character separator: never an empty list.\<close>

fun str_split :: "char \<Rightarrow> string \<Rightarrow> string list" where
  "str_split sep [] = [[]]"
| "str_split sep (c # cs) =
     (if c = sep then [] # str_split sep cs
      else (case str_split sep cs of [] \<Rightarrow> [[c]] | l # ls \<Rightarrow> (c # l) # ls))"

text \<open>\<^verbatim>\<open>lines.pop()\<close>: the last element, if there is one, and the list without it.\<close>

definition pop :: "'a list \<Rightarrow> 'a option \<times> 'a list" where
  "pop xs = (if xs = [] then (None, []) else (Some (last xs), butlast xs))"

text \<open>
  \<^verbatim>\<open>line.trim()\<close> removes white space at both ends: tab, line feed, vertical tab, form
  feed, carriage return, space and the no-break space.
\<close>

definition is_space :: "char \<Rightarrow> bool" where
  "is_space c = (c \<in> set [CHR 0x09, CHR 0x0A, CHR 0x0B, CHR 0x0C, CHR 0x0D, CHR 0x20, CHR 0xA0])"

definition trim :: "string \<Rightarrow> string" where
  "trim s = rev (dropWhile is_space (rev (dropWhile is_space s)))"

subsection \<open>The generator\<close>

datatype line_step = Skipped | Yielded IMessage | Finished IMessage

text \<open>The two object literals of the loop body: \<^verbatim>\<open>finalMessage\<close> and \<^verbatim>\<open>message\<close>.\<close>

definition finalMessage :: "OllamaChatResponse \<Rightarrow> IMessage" where
  "finalMessage data =
     \<lparr> role = ''assistant'',
       content = or_str (Some (content (message data))) [],
       tool_calls = tool_calls (message data),
       usage =
         Some \<lparr> prompt_tokens = or_num (prompt_eval_count data) 0,
                completion_tokens = or_num (eval_count data) 0,
                total_tokens =
                  or_num (prompt_eval_count data) 0 + or_num (eval_count data) 0 \<rparr> \<rparr>"

definition streamingMessage :: "OllamaChatResponse \<Rightarrow> IMessage" where
  "streamingMessage data =
     \<lparr> role = ''assistant'',
       content = or_str (Some (content (message data))) [],
       tool_calls = tool_calls (message data),
       usage = None \<rparr>"

text \<open>
  One turn of the \<^verbatim>\<open>for\<close> loop over the lines of a chunk: a blank line is passed
  over; a line that makes the \<^verbatim>\<open>try\<close> block throw is logged and passed over; a record
  with \<^verbatim>\<open>done\<close> is yielded and the generator returns; any other record is yielded.
\<close>

definition process_line :: "json_parser \<Rightarrow> string \<Rightarrow> line_step" where
  "process_line JSON_parse line =
     (if trim line = [] then Skipped
      else
        (case JSON_parse line of
           None \<Rightarrow> Skipped
         | Some data \<Rightarrow>
             if done_flag data then Finished (finalMessage data)
             else Yielded (streamingMessage data)))"

text \<open>
  The \<^verbatim>\<open>for\<close> loop: the messages yielded, and whether the generator returned inside
  the loop.
\<close>

fun process_lines :: "json_parser \<Rightarrow> string list \<Rightarrow> IMessage list \<times> bool" where
  "process_lines JSON_parse [] = ([], False)"
| "process_lines JSON_parse (line # rest) =
     (case process_line JSON_parse line of
        Skipped \<Rightarrow> process_lines JSON_parse rest
      | Yielded m \<Rightarrow>
          (case process_lines JSON_parse rest of (ms, returned) \<Rightarrow> (m # ms, returned))
      | Finished m \<Rightarrow> ([m], True))"

datatype outcome = Returned | Threw error

definition end_outcome :: "stream_end \<Rightarrow> outcome" where
  "end_outcome e = (case e of EndOfStream \<Rightarrow> Returned | ReadFailed err \<Rightarrow> Threw err)"

text \<open>
  The \<^verbatim>\<open>while\<close> loop over the reads of the stream, from the buffer left by the reads
  before.
\<close>

fun read_loop :: "json_parser \<Rightarrow> string \<Rightarrow> string list \<Rightarrow> stream_end \<Rightarrow> IMessage list \<times> outcome" where
  "read_loop JSON_parse buffer [] e = ([], end_outcome e)"
| "read_loop JSON_parse buffer (chunk # rest) e =
     (case pop (str_split CHR 0x0A (buffer @ chunk)) of
        (popped, lines) \<Rightarrow>
          (case process_lines JSON_parse lines of
             (ms, True) \<Rightarrow> (ms, Returned)
           | (ms, False) \<Rightarrow>
               (case read_loop JSON_parse (or_str popped []) rest e of
                  (ms', oc) \<Rightarrow> (ms @ ms', oc))))"

text \<open>
  The complete lines of a text: every piece that a line feed ends. What follows the last
  line feed is not among them.
\<close>

definition complete_lines :: "string \<Rightarrow> string list" where
  "complete_lines txt = butlast (str_split CHR 0x0A txt)"

text \<open>
  What the generator makes of a list of lines and the end of the stream: the messages of
  the lines in order, up to the first record with \<^verbatim>\<open>done\<close>; it returns there, and
  otherwise ends as the stream does.
\<close>

definition run_lines :: "json_parser \<Rightarrow> string list \<Rightarrow> stream_end \<Rightarrow> IMessage list \<times> outcome" where
  "run_lines JSON_parse ls e =
     (case process_lines JSON_parse ls of
        (ms, returned) \<Rightarrow> (ms, if returned then Returned else end_outcome e))"

text \<open>
  A run of \<^verbatim>\<open>generateChatCompletion\<close>, consumed to its end: the messages yielded in
  order, how the generator ended, the provider after the call and the requests sent.
\<close>

record chat_run =
  yielded :: "IMessage list"
  ended :: outcome
  provider_after :: OllamaProvider
  token_requests :: "request list"
  chat_requests :: "chat_request list"

definition api_error :: "unit response \<Rightarrow> error" where
  "api_error r =
     Error (''Ollama API error: '' @ show_nat (status r) @ '' '' @ statusText r
            @ '' - '' @ text_of r)"

definition generateChatCompletion ::
  "json_parser \<Rightarrow> token_env \<Rightarrow> unit fetch_result \<Rightarrow> OllamaProvider
     \<Rightarrow> IMessage list \<Rightarrow> ITool list option \<Rightarrow> chat_run" where
  "generateChatCompletion JSON_parse env chat_fetch p messages tools =
     (case getBearerToken env p of
        (bearerToken, p', reqs) \<Rightarrow>
          (let sent =
                 [\<lparr> url = baseURL p' @ ''/api/chat'', http_method = ''POST'',
                     headers = auth_headers bearerToken,
                     req_body = build_request_body p messages tools \<rparr>];
               run = (\<lambda>ms oc. \<lparr> yielded = ms, ended = oc, provider_after = p',
                                token_requests = reqs, chat_requests = sent \<rparr>)
           in case chat_fetch of
                Rejected e \<Rightarrow> run [] (Threw e)
              | Resolved r \<Rightarrow>
                  if \<not> ok r then run [] (Threw (api_error r))
                  else
                    (case body r of
                       None \<Rightarrow> run [] (Threw (Error ''No response body from Ollama API''))
                     | Some s \<Rightarrow>
                         (case read_loop JSON_parse [] (chunks s) (ending s) of
                            (ms, oc) \<Rightarrow> run ms oc))))"

section \<open>A JSON reader\<close>

text \<open>
  The theorems about the generator hold for every parser. The examples run on text, so
  they need one: this reader follows the JSON grammar on objects, arrays, strings with
  the one-letter escapes, integers and the three literals. It does not read fractions,
  exponents or \<^verbatim>\<open>\u\<close> escapes and answers \<open>None\<close> on them; no example has one.
\<close>

datatype json =
    JNull
  | JBool bool
  | JNum int
  | JStr string
  | JArr "json list"
  | JObj "(string \<times> json) list"

definition is_json_ws :: "char \<Rightarrow> bool" where
  "is_json_ws c = (c \<in> set [CHR 0x20, CHR 0x09, CHR 0x0A, CHR 0x0D])"

definition skip_ws :: "string \<Rightarrow> string" where
  "skip_ws cs = dropWhile is_json_ws cs"

definition is_digit :: "char \<Rightarrow> bool" where
  "is_digit c = (48 \<le> (of_char c :: nat) \<and> (of_char c :: nat) \<le> 57)"

definition digit_val :: "char \<Rightarrow> nat" where
  "digit_val c = of_char c - 48"

fun parse_digits :: "string \<Rightarrow> nat \<Rightarrow> nat \<times> string" where
  "parse_digits [] acc = (acc, [])"
| "parse_digits (c # cs) acc =
     (if is_digit c then parse_digits cs (acc * 10 + digit_val c) else (acc, c # cs))"

definition starts_fraction :: "string \<Rightarrow> bool" where
  "starts_fraction cs = (take 1 cs = ''.'' \<or> take 1 cs = ''e'' \<or> take 1 cs = ''E'')"

definition parse_unsigned :: "string \<Rightarrow> (nat \<times> string) option" where
  "parse_unsigned cs =
     (case cs of
        [] \<Rightarrow> None
      | d # r \<Rightarrow>
          if \<not> is_digit d then None
          else
            (case (if d = CHR ''0'' then (0, r) else parse_digits cs 0) of
               (n, rest) \<Rightarrow> if starts_fraction rest then None else Some (n, rest)))"

definition parse_number :: "string \<Rightarrow> (json \<times> string) option" where
  "parse_number cs =
     (if take 1 cs = ''-''
      then map_option (\<lambda>(n, rest). (JNum (- int n), rest)) (parse_unsigned (drop 1 cs))
      else map_option (\<lambda>(n, rest). (JNum (int n), rest)) (parse_unsigned cs))"

definition unescape :: "char \<Rightarrow> char option" where
  "unescape e =
     (if e = CHR 0x22 then Some (CHR 0x22)
      else if e = CHR 0x5C then Some (CHR 0x5C)
      else if e = CHR ''/'' then Some (CHR ''/'')
      else if e = CHR ''b'' then Some (CHR 0x08)
      else if e = CHR ''f'' then Some (CHR 0x0C)
      else if e = CHR ''n'' then Some (CHR 0x0A)
      else if e = CHR ''r'' then Some (CHR 0x0D)
      else if e = CHR ''t'' then Some (CHR 0x09)
      else None)"

text \<open>The characters of a string after its opening quote, up to the closing one.\<close>

fun parse_string_chars :: "string \<Rightarrow> string \<Rightarrow> (string \<times> string) option" where
  "parse_string_chars [] acc = None"
| "parse_string_chars [c] acc = (if c = CHR 0x22 then Some (rev acc, []) else None)"
| "parse_string_chars (c # e # cs) acc =
     (if c = CHR 0x22 then Some (rev acc, e # cs)
      else if c = CHR 0x5C then
        (case unescape e of None \<Rightarrow> None | Some x \<Rightarrow> parse_string_chars cs (x # acc))
      else if (of_char c :: nat) < 32 then None
      else parse_string_chars (e # cs) (c # acc))"

text \<open>
  Values, the elements of an array after its bracket and the members of an object after
  its brace, by recursive descent. The first argument bounds the depth of the descent.
\<close>

fun parse_value :: "nat \<Rightarrow> string \<Rightarrow> (json \<times> string) option"
  and parse_elements :: "nat \<Rightarrow> string \<Rightarrow> (json list \<times> string) option"
  and parse_members :: "nat \<Rightarrow> string \<Rightarrow> ((string \<times> json) list \<times> string) option" where
  "parse_value 0 cs = None"
| "parse_value (Suc n) cs =
     (let s = skip_ws cs in
      if take 1 s = ''{'' then
        (let r = skip_ws (drop 1 s) in
         if take 1 r = ''}'' then Some (JObj [], drop 1 r)
         else map_option (\<lambda>(ms, rest). (JObj ms, rest)) (parse_members n r))
      else if take 1 s = ''['' then
        (let r = skip_ws (drop 1 s) in
         if take 1 r = '']'' then Some (JArr [], drop 1 r)
         else map_option (\<lambda>(vs, rest). (JArr vs, rest)) (parse_elements n r))
      else if take 1 s = [CHR 0x22] then
        map_option (\<lambda>(str, rest). (JStr str, rest)) (parse_string_chars (drop 1 s) [])
      else if take 4 s = ''true'' then Some (JBool True, drop 4 s)
      else if take 5 s = ''false'' then Some (JBool False, drop 5 s)
      else if take 4 s = ''null'' then Some (JNull, drop 4 s)
      else parse_number s)"
| "parse_elements 0 cs = None"
| "parse_elements (Suc n) cs =
     (case parse_value n cs of
        None \<Rightarrow> None
      | Some (v, r) \<Rightarrow>
          (let r1 = skip_ws r in
           if take 1 r1 = '','' then
             map_option (\<lambda>(vs, rest). (v # vs, rest)) (parse_elements n (drop 1 r1))
           else if take 1 r1 = '']'' then Some ([v], drop 1 r1)
           else None))"
| "parse_members 0 cs = None"
| "parse_members (Suc n) cs =
     (let r0 = skip_ws cs in
      if take 1 r0 \<noteq> [CHR 0x22] then None
      else
        (case parse_string_chars (drop 1 r0) [] of
           None \<Rightarrow> None
         | Some (k, r1) \<Rightarrow>
             (let r2 = skip_ws r1 in
              if take 1 r2 \<noteq> '':'' then None
              else
                (case parse_value n (drop 1 r2) of
                   None \<Rightarrow> None
                 | Some (v, r3) \<Rightarrow>
                     (let r4 = skip_ws r3 in
                      if take 1 r4 = '','' then
                        map_option (\<lambda>(ms, rest). ((k, v) # ms, rest))
                          (parse_members n (drop 1 r4))
                      else if take 1 r4 = ''}'' then Some ([(k, v)], drop 1 r4)
                      else None)))))"

definition json_parse :: "string \<Rightarrow> json option" where
  "json_parse txt =
     (case parse_value (2 * length txt + 2) txt of
        None \<Rightarrow> None
      | Some (v, rest) \<Rightarrow> if skip_ws rest = [] then Some v else None)"

text \<open>
  A parsed value read at the type \<^verbatim>\<open>OllamaChatResponse\<close>. A member that occurs twice
  has its last value. Where the source would read a property of \<^verbatim>\<open>undefined\<close> or
  \<^verbatim>\<open>null\<close> (no \<^verbatim>\<open>message\<close>) the \<^verbatim>\<open>try\<close> block throws, so the answer is \<open>None\<close>;
  it is \<open>None\<close> too on a value that does not have the declared type.
\<close>

definition json_member :: "(string \<times> json) list \<Rightarrow> string \<Rightarrow> json option" where
  "json_member ms key = map_of (rev ms) key"

definition as_string :: "json option \<Rightarrow> string option" where
  "as_string v = (case v of None \<Rightarrow> Some [] | Some (JStr s) \<Rightarrow> Some s | Some _ \<Rightarrow> None)"

definition as_count :: "json option \<Rightarrow> int option option" where
  "as_count v = (case v of None \<Rightarrow> Some None | Some (JNum n) \<Rightarrow> Some (Some n) | Some _ \<Rightarrow> None)"

definition as_flag :: "json option \<Rightarrow> bool option" where
  "as_flag v = (case v of None \<Rightarrow> Some False | Some (JBool b) \<Rightarrow> Some b | Some _ \<Rightarrow> None)"

definition as_tool_function :: "json option \<Rightarrow> tool_function option" where
  "as_tool_function v =
     (case v of
        Some (JObj ms) \<Rightarrow>
          (case (json_member ms ''name'', json_member ms ''arguments'') of
             (Some (JStr n), Some (JStr a)) \<Rightarrow> Some \<lparr> fn_name = n, arguments = a \<rparr>
           | _ \<Rightarrow> None)
      | _ \<Rightarrow> None)"

definition as_tool_call :: "json \<Rightarrow> tool_call option" where
  "as_tool_call v =
     (case v of
        JObj ms \<Rightarrow>
          (case (json_member ms ''id'', json_member ms ''type'', as_tool_function (json_member ms ''function'')) of
             (Some (JStr i), Some (JStr t), Some f) \<Rightarrow>
               Some \<lparr> call_id = i, call_type = t, call_function = f \<rparr>
           | _ \<Rightarrow> None)
      | _ \<Rightarrow> None)"

definition as_tool_calls :: "json option \<Rightarrow> tool_call list option option" where
  "as_tool_calls v =
     (case v of
        None \<Rightarrow> Some None
      | Some (JArr vs) \<Rightarrow>
          (if list_all (\<lambda>c. as_tool_call c \<noteq> None) vs
           then Some (Some (map (\<lambda>c. the (as_tool_call c)) vs))
           else None)
      | Some _ \<Rightarrow> None)"

definition as_message :: "json option \<Rightarrow> OllamaMessage option" where
  "as_message v =
     (case v of
        Some (JObj ms) \<Rightarrow>
          (case (as_string (json_member ms ''role''), as_string (json_member ms ''content''),
                 as_tool_calls (json_member ms ''tool_calls'')) of
             (Some r, Some c, Some tcs) \<Rightarrow> Some \<lparr> role = r, content = c, tool_calls = tcs \<rparr>
           | _ \<Rightarrow> None)
      | _ \<Rightarrow> None)"

definition as_chat_response :: "json \<Rightarrow> OllamaChatResponse option" where
  "as_chat_response v =
     (case v of
        JObj ms \<Rightarrow>
          (case (as_message (json_member ms ''message''), as_flag (json_member ms ''done''),
                 as_count (json_member ms ''prompt_eval_count''), as_count (json_member ms ''eval_count'')) of
             (Some m, Some d, Some p, Some e) \<Rightarrow>
               Some \<lparr> message = m, done_flag = d, prompt_eval_count = p, eval_count = e \<rparr>
           | _ \<Rightarrow> None)
      | _ \<Rightarrow> None)"

definition parse_chat_line :: json_parser where
  "parse_chat_line line = (case json_parse line of None \<Rightarrow> None | Some v \<Rightarrow> as_chat_response v)"

section \<open>Examples\<close>

text \<open>A provider with a token URL and a static key, and token endpoints that answer.\<close>

definition example_provider :: OllamaProvider where
  "example_provider =
     setTokenUrl ''https://example.com/token''
       (new_OllamaProvider None None (Some ''static-key''))"

definition token_response :: "token_data \<Rightarrow> token_data response" where
  "token_response td =
     \<lparr> status = 200, statusText = ''OK'', text_of = [], json_of = Inr td, body = None \<rparr>"

definition token_env_at :: "nat \<Rightarrow> token_data \<Rightarrow> token_env" where
  "token_env_at t td =
     \<lparr> now_check = t, token_fetch = Resolved (token_response td), now_store = t \<rparr>"

text \<open>A provider without token URL, for which a token request does no I/O.\<close>

definition local_provider :: OllamaProvider where
  "local_provider = new_OllamaProvider None None None"

text \<open>The same provider with a configured tool format for \<^verbatim>\<open>ollama\<close>.\<close>

definition configured_provider :: OllamaProvider where
  "configured_provider =
     setConfig \<lparr> providerToolFormatOverrides = Some [''ollama'' \<mapsto> ''hermes''] \<rparr>
       local_provider"

definition idle_env :: token_env where
  "idle_env = \<lparr> now_check = 0, token_fetch = Rejected (Error ''unused''), now_store = 0 \<rparr>"

text \<open>An OK answer of \<^verbatim>\<open>/api/chat\<close> whose body delivers the given chunks and then ends.\<close>

definition streaming_response :: "string list \<Rightarrow> unit response" where
  "streaming_response cs =
     \<lparr> status = 200, statusText = ''OK'', text_of = [], json_of = Inr (),
       body = Some \<lparr> chunks = cs, ending = EndOfStream \<rparr> \<rparr>"

definition error_response :: "unit response" where
  "error_response =
     \<lparr> status = 500, statusText = ''Internal Server Error'', text_of = ''Server error'',
       json_of = Inr (), body = None \<rparr>"

text \<open>The two records of the usage scenario and a line that is not JSON.\<close>

definition hello_line :: string where
  \<open>hello_line =
     ''{"model":"llama2","message":{"role":"assistant","content":"Hello"},"done":false}''\<close>

definition usage_line :: string where
  \<open>usage_line =
     ''{"model":"llama2","message":{"role":"assistant","content":""},"done":true,"prompt_eval_count":62,"eval_count":23}''\<close>

definition hello_record :: OllamaChatResponse where
  "hello_record =
     \<lparr> message = \<lparr> role = ''assistant'', content = ''Hello'', tool_calls = None \<rparr>,
       done_flag = False, prompt_eval_count = None, eval_count = None \<rparr>"

definition usage_record :: OllamaChatResponse where
  "usage_record =
     \<lparr> message = \<lparr> role = ''assistant'', content = [], tool_calls = None \<rparr>,
       done_flag = True, prompt_eval_count = Some 62, eval_count = Some 23 \<rparr>"

definition hello_message :: IMessage where
  "hello_message =
     \<lparr> role = ''assistant'', content = ''Hello'', tool_calls = None, usage = None \<rparr>"

definition usage_message :: IMessage where
  "usage_message =
     \<lparr> role = ''assistant'', content = [], tool_calls = None,
       usage = Some \<lparr> prompt_tokens = 62, completion_tokens = 23, total_tokens = 85 \<rparr> \<rparr>"

definition malformed_line :: string where
  \<open>malformed_line = ''{"message": {"content": "Hel''\<close>

definition nl :: string where
  "nl = [CHR 0x0A]"

section \<open>Properties of the provider state\<close>

lemma getBearerToken_name: "name (fst (snd (getBearerToken env p))) = name p"
  by (auto simp: getBearerToken_def fetch_token_def
      split: sum.splits fetch_result.splits prod.splits if_splits)

lemma getBearerToken_tokenUrl: "tokenUrl (fst (snd (getBearerToken env p))) = tokenUrl p"
  by (auto simp: getBearerToken_def fetch_token_def
      split: sum.splits fetch_result.splits prod.splits if_splits)

lemma fallback_models_name: "name q = name p \<Longrightarrow> fallback_models q = fallback_models p"
  by (simp add: fallback_models_def)

lemma list_models_failure: "transport_failure f \<Longrightarrow> \<exists>e. list_models f q = Inl e"
  by (auto simp: transport_failure_def list_models_def split: fetch_result.splits)

lemma show_nat_500: "show_nat 500 = ''500''"
  by code_simp

subsection \<open>Tool format\<close>

text \<open>
  C7. For every provider state, \<^verbatim>\<open>getToolFormat\<close> resolves the dialect in a fixed
  order, the first match winning: the manual override if it is set, then the configured
  override for this provider if there is one, then the first family of the table
  llama, deepseek, qwen, hermes, gemma whose name occurs in the current model id, then
  the default llama.
\<close>

theorem getToolFormat_resolution_order:
  "getToolFormat p =
     resolveToolFormat_spec (set_override (toolFormatOverride p))
       (set_override (configToolFormat p)) (currentModel p)"
  by (cases "toolFormatOverride p"; cases "configToolFormat p")
     (simp_all add: getToolFormat_def resolveToolFormat_spec_def set_override_def truthy_def
        known_families_def default_dialect_def str_includes_def)

theorem getToolFormat_resolution_order_witness:
  "getToolFormat (setModel ''my-qwen-deepseek'' local_provider) = ''deepseek''
   \<and> getToolFormat (setModel ''mistral'' local_provider) = ''llama''
   \<and> getToolFormat (setModel ''qwen2.5-coder'' configured_provider) = ''hermes''
   \<and> getToolFormat (setToolFormatOverride (Some ''gemma'')
         (setModel ''qwen2.5-coder'' configured_provider)) = ''gemma''"
proof -
  have c: "configToolFormat (setModel m configured_provider) = Some ''hermes''" for m
    by (simp add: configToolFormat_def setModel_def configured_provider_def setConfig_def
        local_provider_def new_OllamaProvider_def)
  have o: "toolFormatOverride (setModel m configured_provider) = None"
    "toolFormatOverride (setModel m local_provider) = None"
    "configToolFormat (setModel m local_provider) = None" for m
    by (simp_all add: configToolFormat_def setModel_def configured_provider_def setConfig_def
        local_provider_def new_OllamaProvider_def)
  have m: "currentModel (setModel m q) = m" for m q
    by (simp add: setModel_def)
  have s: "toolFormatOverride (setToolFormatOverride (Some ''gemma'') q) = Some ''gemma''"
    "configToolFormat (setToolFormatOverride f q) = configToolFormat q"
    "currentModel (setToolFormatOverride f q) = currentModel q" for f q
    by (simp_all add: setToolFormatOverride_def truthy_def configToolFormat_def
        split: option.splits)
  have f1: "find (\<lambda>family. sublist family ''my-qwen-deepseek'') known_families = Some ''deepseek''"
    by code_simp
  have f2: "find (\<lambda>family. sublist family ''mistral'') known_families = None"
    by code_simp
  show ?thesis
    unfolding getToolFormat_resolution_order
    by (simp add: resolveToolFormat_spec_def set_override_def truthy_def default_dialect_def
        c o m s f1 f2)
qed

subsection \<open>Listing models\<close>

text \<open>
  C6. When the model-listing request fails in transport (the fetch rejects, or the answer
  is not OK), \<^verbatim>\<open>getModels\<close> does not raise: it returns the hardcoded fallback catalog,
  which has six entries, so the caller receives a non-empty list.
\<close>

theorem getModels_fallback_on_transport_failure:
  assumes "transport_failure tags_fetch"
  shows "fst (getModels env tags_fetch p) = Inr (fallback_models p)
         \<and> length (fallback_models p) = 6 \<and> fallback_models p \<noteq> []"
proof -
  obtain t q reqs where g: "getBearerToken env p = (t, q, reqs)"
    by (metis prod_cases3)
  have q: "name q = name p"
    using getBearerToken_name [of env p] g by simp
  obtain e where "list_models tags_fetch q = Inl e"
    using list_models_failure [OF assms] by blast
  then have "fst (getModels env tags_fetch p) = Inr (fallback_models q)"
    by (simp add: getModels_def g)
  then show ?thesis
    using fallback_models_name [OF q] by (simp add: fallback_models_def)
qed

theorem getModels_fallback_on_transport_failure_witness:
  "transport_failure (Rejected (Error ''Connection failed'') :: tags_data fetch_result)
   \<and> fst (getModels idle_env (Rejected (Error ''Connection failed'')) local_provider)
       = Inr (fallback_models local_provider)
   \<and> map model_id (fallback_models local_provider)
       = [''llama2'', ''llama2:13b'', ''llama2:70b'', ''codellama'', ''deepseek-coder'',
          ''qwen2.5-coder'']"
proof -
  have h: "transport_failure (Rejected (Error ''Connection failed'') :: tags_data fetch_result)"
    by (simp add: transport_failure_def)
  show ?thesis
    using h getModels_fallback_on_transport_failure [OF h, of idle_env local_provider]
    by (simp add: fallback_models_def)
qed

subsection \<open>Bearer tokens\<close>

lemma getBearerToken_cached:
  assumes "truthy (tokenUrl p)" "cachedToken p = Some tok" "tok \<noteq> []" "tokenExpiry p = Some ex"
    "int (now_check env) < ex - 300000"
  shows "getBearerToken env p = (Some tok, p, [])"
  using assms by (auto simp: getBearerToken_def truthy_def truthy_num_def)

lemma getBearerToken_stale:
  assumes "truthy (tokenUrl p)" "tokenExpiry p = Some ex" "\<not> int (now_check env) < ex - 300000"
  shows "snd (snd (getBearerToken env p)) = [token_request (the (tokenUrl p))]"
  using assms by (auto simp: getBearerToken_def split: sum.splits)

lemma getBearerToken_fetch_success:
  assumes "snd (snd (getBearerToken env p)) \<noteq> []"
    "token_fetch env = Resolved r" "ok r" "json_of r = Inr td" "read_token td = Inr (t, e)"
  shows "fst (getBearerToken env p) = Some t
         \<and> cachedToken (fst (snd (getBearerToken env p))) = Some t"
  using assms by (auto simp: getBearerToken_def fetch_token_def split: if_splits)

lemma clearCachedToken_forces_fetch:
  "cachedToken (clearCachedToken p) = None \<and> tokenExpiry (clearCachedToken p) = None
   \<and> (truthy (tokenUrl p) \<longrightarrow>
        snd (snd (getBearerToken env (clearCachedToken p))) = [token_request (the (tokenUrl p))])"
  by (auto simp: clearCachedToken_def getBearerToken_def truthy_def truthy_num_def
      split: sum.splits)

lemma two_token_requests_eq:
  "getBearerToken env1 p = (t1, p1, reqs1) \<Longrightarrow>
   two_token_requests env1 env2 p =
     ((t1, fst (getBearerToken env2 p1)), fst (snd (getBearerToken env2 p1)),
      reqs1 @ snd (snd (getBearerToken env2 p1)))"
  by (simp add: two_token_requests_def split: prod.splits)

text \<open>
  C8, as amended. For every provider with a token URL configured, take two token
  requests one after the other, the first of which fetched a token and cached it, the
  token not being the empty string. If the second request is made inside the validity
  window of the cached token (now < expiry - 300000 ms), the two requests together send
  exactly one network request and the second returns the cached token and leaves the
  provider as it is. If it is made outside the window, the second request fetches again,
  and when that fetch succeeds it returns and caches the new token.
\<close>

theorem bearer_token_cache_window:
  assumes url: "truthy (tokenUrl p)"
    and first: "getBearerToken env1 p = (Some tok, p1, [req])"
    and cached: "cachedToken p1 = Some tok" "tok \<noteq> []" "tokenExpiry p1 = Some ex"
  shows "(int (now_check env2) < ex - 300000 \<longrightarrow>
            two_token_requests env1 env2 p = ((Some tok, Some tok), p1, [req]))
       \<and> (\<not> int (now_check env2) < ex - 300000 \<longrightarrow>
            snd (snd (two_token_requests env1 env2 p)) = [req, token_request (the (tokenUrl p))]
            \<and> (\<forall>r td t e. token_fetch env2 = Resolved r \<and> ok r \<and> json_of r = Inr td
                   \<and> read_token td = Inr (t, e) \<longrightarrow>
                 snd (fst (two_token_requests env1 env2 p)) = Some t
                 \<and> cachedToken (fst (snd (two_token_requests env1 env2 p))) = Some t))"
proof -
  have u1: "tokenUrl p1 = tokenUrl p"
    using getBearerToken_tokenUrl [of env1 p] first by simp
  then have url1: "truthy (tokenUrl p1)" using url by simp
  note two = two_token_requests_eq [OF first, of env2]
  have inside: "two_token_requests env1 env2 p = ((Some tok, Some tok), p1, [req])"
    if "int (now_check env2) < ex - 300000"
    using getBearerToken_cached [OF url1 cached that] two by simp
  have outside:
    "snd (snd (two_token_requests env1 env2 p)) = [req, token_request (the (tokenUrl p))]
     \<and> (\<forall>r td t e. token_fetch env2 = Resolved r \<and> ok r \<and> json_of r = Inr td
            \<and> read_token td = Inr (t, e) \<longrightarrow>
          snd (fst (two_token_requests env1 env2 p)) = Some t
          \<and> cachedToken (fst (snd (two_token_requests env1 env2 p))) = Some t)"
    if out: "\<not> int (now_check env2) < ex - 300000"
  proof -
    have s: "snd (snd (getBearerToken env2 p1)) = [token_request (the (tokenUrl p))]"
      using getBearerToken_stale [OF url1 cached(3) out] u1 by simp
    then have ne: "snd (snd (getBearerToken env2 p1)) \<noteq> []" by simp
    show ?thesis
      using s getBearerToken_fetch_success [OF ne] by (simp add: two)
  qed
  show ?thesis using inside outside by blast
qed

theorem bearer_token_cache_window_witness:
  "two_token_requests (token_env_at 1000 (TokenString ''abc''))
       (token_env_at 2000 (TokenString ''xyz'')) example_provider
     = ((Some ''abc'', Some ''abc''),
        example_provider\<lparr>cachedToken := Some ''abc'', tokenExpiry := Some 3601000\<rparr>,
        [token_request ''https://example.com/token''])
   \<and> snd (snd (two_token_requests (token_env_at 1000 (TokenString ''abc''))
       (token_env_at 3301000 (TokenString ''xyz'')) example_provider))
     = [token_request ''https://example.com/token'', token_request ''https://example.com/token'']
   \<and> snd (fst (two_token_requests (token_env_at 1000 (TokenString ''abc''))
       (token_env_at 3301000 (TokenString ''xyz'')) example_provider))
     = Some ''xyz''"
proof -
  let ?e1 = "token_env_at 1000 (TokenString ''abc'')"
  let ?in = "token_env_at 2000 (TokenString ''xyz'')"
  let ?out = "token_env_at 3301000 (TokenString ''xyz'')"
  let ?p1 = "example_provider\<lparr>cachedToken := Some ''abc'', tokenExpiry := Some 3601000\<rparr>"
  let ?req = "token_request ''https://example.com/token''"
  have url: "truthy (tokenUrl example_provider)"
    by (simp add: example_provider_def setTokenUrl_def truthy_def)
  have first: "getBearerToken ?e1 example_provider = (Some ''abc'', ?p1, [?req])"
    by (simp add: getBearerToken_def fetch_token_def token_env_at_def token_response_def
        example_provider_def setTokenUrl_def new_OllamaProvider_def truthy_def truthy_num_def
        read_token_def ok_def)
  have c: "cachedToken ?p1 = Some ''abc''" "''abc'' \<noteq> []" "tokenExpiry ?p1 = Some 3601000"
    by simp_all
  have u: "the (tokenUrl example_provider) = ''https://example.com/token''"
    by (simp add: example_provider_def setTokenUrl_def)
  note t = bearer_token_cache_window [OF url first c]
  have a: "int (now_check ?in) < 3601000 - 300000"
    by (simp add: token_env_at_def)
  have b: "\<not> int (now_check ?out) < 3601000 - 300000"
    by (simp add: token_env_at_def)
  have f: "token_fetch ?out = Resolved (token_response (TokenString ''xyz''))
      \<and> ok (token_response (TokenString ''xyz''))
      \<and> json_of (token_response (TokenString ''xyz'')) = Inr (TokenString ''xyz'')
      \<and> read_token (TokenString ''xyz'') = Inr (''xyz'', None)"
    by (simp add: token_env_at_def token_response_def ok_def read_token_def)
  from t [of ?in] a
  have 1: "two_token_requests ?e1 ?in example_provider = ((Some ''abc'', Some ''abc''), ?p1, [?req])"
    by blast
  from t [of ?out] b f u
  have 2: "snd (snd (two_token_requests ?e1 ?out example_provider)) = [?req, ?req]
     \<and> snd (fst (two_token_requests ?e1 ?out example_provider)) = Some ''xyz''"
    by metis
  show ?thesis using 1 2 by simp
qed

text \<open>
  The claim as it stands fails when the token endpoint answers with the empty string: the
  provider has a token URL, the first request caches the empty token with an expiry one
  hour ahead, the second request comes one second later, well inside the window, and yet
  the two requests send two network requests.
\<close>

theorem bearer_token_cache_window_counterexample:
  "truthy (tokenUrl example_provider)
   \<and> cachedToken (fst (snd (getBearerToken (token_env_at 1000 (TokenString [])) example_provider)))
       = Some []
   \<and> tokenExpiry (fst (snd (getBearerToken (token_env_at 1000 (TokenString [])) example_provider)))
       = Some 3601000
   \<and> int (now_check (token_env_at 2000 (TokenString []))) < 3601000 - 300000
   \<and> length (snd (snd (two_token_requests (token_env_at 1000 (TokenString []))
         (token_env_at 2000 (TokenString [])) example_provider))) = 2"
  by (simp add: two_token_requests_def getBearerToken_def fetch_token_def token_env_at_def
        token_response_def example_provider_def setTokenUrl_def new_OllamaProvider_def
        truthy_def truthy_num_def read_token_def ok_def)

text \<open>
  C10, as amended. Every call of \<^verbatim>\<open>setTokenUrl\<close> clears the cached token and its expiry
  and stores the URL. The first token request after a change to a URL that is not the
  empty string sends a request to that URL, and no token request after the change depends
  on what was cached before it. After a change to the empty string the request sends
  nothing and returns the static API key.
\<close>

theorem setTokenUrl_clears_cache:
  "cachedToken (setTokenUrl u p) = None \<and> tokenExpiry (setTokenUrl u p) = None
   \<and> tokenUrl (setTokenUrl u p) = Some u
   \<and> (u \<noteq> [] \<longrightarrow> snd (snd (getBearerToken env (setTokenUrl u p))) = [token_request u])
   \<and> (u = [] \<longrightarrow> getBearerToken env (setTokenUrl u p) = (apiKey p, setTokenUrl u p, []))
   \<and> getBearerToken env (setTokenUrl u (p\<lparr>cachedToken := c, tokenExpiry := x\<rparr>))
       = getBearerToken env (setTokenUrl u p)"
  by (auto simp: setTokenUrl_def getBearerToken_def fetch_token_def truthy_def truthy_num_def
      split: sum.splits fetch_result.splits prod.splits)

theorem setTokenUrl_clears_cache_witness:
  "cachedToken (setTokenUrl ''https://example.org/t''
       (example_provider\<lparr>cachedToken := Some ''old'', tokenExpiry := Some 3601000\<rparr>)) = None
   \<and> snd (snd (getBearerToken (token_env_at 1000 (TokenString ''new''))
       (setTokenUrl ''https://example.org/t''
          (example_provider\<lparr>cachedToken := Some ''old'', tokenExpiry := Some 3601000\<rparr>))))
       = [token_request ''https://example.org/t'']
   \<and> fst (getBearerToken (token_env_at 1000 (TokenString ''new''))
       (setTokenUrl ''https://example.org/t''
          (example_provider\<lparr>cachedToken := Some ''old'', tokenExpiry := Some 3601000\<rparr>)))
       = Some ''new''"
proof -
  let ?p = "example_provider\<lparr>cachedToken := Some ''old'', tokenExpiry := Some 3601000\<rparr>"
  let ?u = "''https://example.org/t''"
  let ?env = "token_env_at 1000 (TokenString ''new'')"
  have ne: "?u \<noteq> []" by simp
  from setTokenUrl_clears_cache [of ?u ?p ?env]
  have 1: "cachedToken (setTokenUrl ?u ?p) = None"
    and 2: "snd (snd (getBearerToken ?env (setTokenUrl ?u ?p))) = [token_request ?u]"
    using ne by blast+
  then have "snd (snd (getBearerToken ?env (setTokenUrl ?u ?p))) \<noteq> []" by simp
  then have 3: "fst (getBearerToken ?env (setTokenUrl ?u ?p)) = Some ''new''"
    using getBearerToken_fetch_success [of ?env "setTokenUrl ?u ?p" "token_response (TokenString ''new'')"
        "TokenString ''new''" "''new''" None]
    by (simp add: token_env_at_def token_response_def ok_def read_token_def)
  show ?thesis using 1 2 3 by simp
qed

text \<open>
  The claim as it stands fails for the empty string: the call clears the cache, but the
  token request that follows sends nothing.
\<close>

theorem setTokenUrl_clears_cache_counterexample:
  "cachedToken (setTokenUrl []
       (example_provider\<lparr>cachedToken := Some ''old'', tokenExpiry := Some 3601000\<rparr>)) = None
   \<and> snd (snd (getBearerToken (token_env_at 1000 (TokenString ''new''))
        (setTokenUrl []
           (example_provider\<lparr>cachedToken := Some ''old'', tokenExpiry := Some 3601000\<rparr>)))) = []"
  by (simp add: setTokenUrl_def getBearerToken_def truthy_def)

subsection \<open>Failing requests\<close>

text \<open>
  C2. For every chat-completion request that receives an answer whose status is not in
  200..299, \<^verbatim>\<open>generateChatCompletion\<close> yields nothing and raises an error to the caller;
  the chat request was sent once and is not repeated. The message of the error is
  \<^verbatim>\<open>Ollama API error: <status> <reason phrase> - <body text>\<close>, so it contains the
  decimal status code, the reason phrase and the body text.
\<close>

theorem generateChatCompletion_http_error:
  assumes "status r < 200 \<or> 299 < status r"
  shows "let run = generateChatCompletion JSON_parse env (Resolved r) p messages tools;
             msg = ''Ollama API error: '' @ show_nat (status r) @ '' '' @ statusText r
                   @ '' - '' @ text_of r
         in yielded run = [] \<and> ended run = Threw (Error msg) \<and> length (chat_requests run) = 1
            \<and> sublist (show_nat (status r)) msg \<and> sublist (statusText r) msg
            \<and> sublist (text_of r) msg"
proof -
  have nok: "\<not> ok r" using assms by (auto simp: ok_def)
  obtain t q reqs where g: "getBearerToken env p = (t, q, reqs)"
    by (metis prod_cases3)
  let ?msg = "''Ollama API error: '' @ show_nat (status r) @ '' '' @ statusText r
              @ '' - '' @ text_of r"
  have 1: "sublist (show_nat (status r)) ?msg"
    by (rule sublist_appendI)
  have 2: "sublist (statusText r) ?msg"
    using sublist_appendI [of "statusText r"
        "''Ollama API error: '' @ show_nat (status r) @ '' ''" "'' - '' @ text_of r"]
    by simp
  have 3: "sublist (text_of r) ?msg"
    using sublist_appendI [of "text_of r"
        "''Ollama API error: '' @ show_nat (status r) @ '' '' @ statusText r @ '' - ''" "[]"]
    by simp
  have run: "generateChatCompletion JSON_parse env (Resolved r) p messages tools =
      \<lparr> yielded = [], ended = Threw (Error ?msg), provider_after = q, token_requests = reqs,
        chat_requests = [\<lparr> url = baseURL q @ ''/api/chat'', http_method = ''POST'',
                     headers = auth_headers t,
                     req_body = build_request_body p messages tools \<rparr>] \<rparr>"
    by (simp add: generateChatCompletion_def g nok api_error_def Let_def)
  show ?thesis
    unfolding Let_def run using 1 2 3 by simp
qed

theorem generateChatCompletion_http_error_witness:
  "yielded (generateChatCompletion parse_chat_line idle_env (Resolved error_response)
       local_provider [] None) = []
   \<and> ended (generateChatCompletion parse_chat_line idle_env (Resolved error_response)
       local_provider [] None)
       = Threw (Error ''Ollama API error: 500 Internal Server Error - Server error'')
   \<and> length (chat_requests (generateChatCompletion parse_chat_line idle_env
       (Resolved error_response) local_provider [] None)) = 1"
proof -
  have h: "status error_response < 200 \<or> 299 < status error_response"
    by (simp add: error_response_def)
  have s: "status error_response = 500" "statusText error_response = ''Internal Server Error''"
    "text_of error_response = ''Server error''"
    by (simp_all add: error_response_def)
  show ?thesis
    using generateChatCompletion_http_error [OF h, of parse_chat_line idle_env local_provider "[]" None]
    unfolding Let_def s show_nat_500 by simp
qed

section \<open>Properties of the stream\<close>

subsection \<open>Lines\<close>

lemma str_split_nonempty [simp]: "str_split sep cs \<noteq> []"
  by (induction cs) (auto split: list.splits)

lemma str_split_append:
  "str_split sep (x @ y) = butlast (str_split sep x) @ str_split sep (last (str_split sep x) @ y)"
proof (induction x)
  case Nil
  then show ?case by simp
next
  case (Cons c x)
  show ?case
  proof (cases "c = sep")
    case True
    then show ?thesis using Cons by simp
  next
    case False
    obtain l ls where s: "str_split sep x = l # ls"
      using str_split_nonempty [of sep x] by (cases "str_split sep x") auto
    show ?thesis
    proof (cases ls)
      case Nil
      then show ?thesis using False s Cons by simp
    next
      case (Cons a as)
      then show ?thesis using False s Cons.IH by simp
    qed
  qed
qed

lemma str_split_no_sep: "sep \<notin> set cs \<Longrightarrow> str_split sep cs = [cs]"
  by (induction cs) auto

lemma str_split_line: "sep \<notin> set l \<Longrightarrow> str_split sep (l @ sep # rest) = l # str_split sep rest"
  by (induction l) auto

lemma last_str_split_no_sep: "sep \<notin> set (last (str_split sep cs))"
proof (induction cs)
  case Nil
  then show ?case by simp
next
  case (Cons c cs)
  obtain l ls where s: "str_split sep cs = l # ls"
    using str_split_nonempty [of sep cs] by (cases "str_split sep cs") auto
  show ?case using Cons s by (cases ls) auto
qed

lemma str_split_last_empty:
  assumes "before = [] \<or> last before = sep"
  shows "last (str_split sep before) = []"
proof (cases "before = []")
  case True
  then show ?thesis by simp
next
  case False
  then obtain b where b: "before = b @ [sep]"
    using assms by (metis append_butlast_last_id)
  have "str_split sep (last (str_split sep b) @ [sep]) = [last (str_split sep b), []]"
    using str_split_line [OF last_str_split_no_sep, of sep b "[]"] by simp
  then show ?thesis
    unfolding b by (subst str_split_append) simp
qed

lemma complete_lines_append:
  "complete_lines (x @ y) =
     complete_lines x @ complete_lines (last (str_split CHR 0x0A x) @ y)"
  unfolding complete_lines_def
  by (subst str_split_append) (simp add: butlast_append)

lemma complete_lines_after_newline:
  assumes "before = [] \<or> last before = CHR 0x0A"
  shows "complete_lines (before @ y) = complete_lines before @ complete_lines y"
  using complete_lines_append [of before y] str_split_last_empty [OF assms] by simp

lemma complete_lines_line:
  "CHR 0x0A \<notin> set l \<Longrightarrow> complete_lines (l @ CHR 0x0A # rest) = l # complete_lines rest"
  by (simp add: complete_lines_def str_split_line)

lemma complete_lines_tail:
  assumes "CHR 0x0A \<notin> set tail"
  shows "complete_lines (x @ tail) = complete_lines x"
proof -
  have "CHR 0x0A \<notin> set (last (str_split CHR 0x0A x) @ tail)"
    using assms last_str_split_no_sep [of "CHR 0x0A" x] by simp
  then have "complete_lines (last (str_split CHR 0x0A x) @ tail) = []"
    by (simp add: complete_lines_def str_split_no_sep)
  then show ?thesis using complete_lines_append [of x tail] by simp
qed

subsection \<open>Iteration over lines and reads\<close>

lemma process_lines_append:
  "process_lines P (a @ b) =
     (case process_lines P a of
        (ms, True) \<Rightarrow> (ms, True)
      | (ms, False) \<Rightarrow> (case process_lines P b of (ms', fin) \<Rightarrow> (ms @ ms', fin)))"
  by (induction a) (auto split: line_step.splits prod.splits bool.splits)

lemma process_lines_skip:
  "process_line P line = Skipped \<Longrightarrow> process_lines P (a @ line # b) = process_lines P (a @ b)"
  by (induction a) (auto split: line_step.splits prod.splits)

lemma process_lines_finish:
  assumes "\<not> snd (process_lines P a)" "process_line P line = Finished m"
  shows "process_lines P (a @ line # b) = (fst (process_lines P a) @ [m], True)"
proof -
  obtain ms fin where pl: "process_lines P a = (ms, fin)"
    by (cases "process_lines P a")
  then have "\<not> fin" using assms(1) by simp
  then show ?thesis
    using pl assms(2) by (simp add: process_lines_append)
qed

lemma process_lines_usage_last:
  "i < length (fst (process_lines P ls)) \<Longrightarrow> usage (fst (process_lines P ls) ! i) \<noteq> None \<Longrightarrow>
   Suc i = length (fst (process_lines P ls))"
proof (induction ls arbitrary: i)
  case Nil
  then show ?case by simp
next
  case (Cons l ls)
  show ?case
  proof (cases "process_line P l")
    case Skipped
    then show ?thesis using Cons by simp
  next
    case (Yielded m)
    then have m: "usage m = None"
      by (auto simp: process_line_def streamingMessage_def split: if_splits option.splits)
    obtain ms fin where pl: "process_lines P ls = (ms, fin)"
      by (cases "process_lines P ls")
    show ?thesis
    proof (cases i)
      case 0
      then show ?thesis using Cons.prems Yielded m pl by simp
    next
      case (Suc j)
      then show ?thesis using Cons.prems Cons.IH [of j] Yielded pl by simp
    qed
  next
    case (Finished m)
    then show ?thesis using Cons.prems by simp
  qed
qed

lemma or_str_Some_Nil [simp]: "or_str (Some x) [] = x"
  by (simp add: or_str_def)

lemma pop_str_split:
  "pop (str_split sep txt) = (Some (last (str_split sep txt)), butlast (str_split sep txt))"
  by (simp add: pop_def)

text \<open>
  The reads of the stream come to this: the generator runs over the complete lines of
  the buffer followed by all the chunks.
\<close>

lemma read_loop_complete_lines:
  "CHR 0x0A \<notin> set buffer \<Longrightarrow>
   read_loop P buffer cs e = run_lines P (complete_lines (buffer @ concat cs)) e"
proof (induction cs arbitrary: buffer)
  case Nil
  then show ?case
    by (simp add: complete_lines_def str_split_no_sep run_lines_def)
next
  case (Cons c cs)
  let ?L = "str_split CHR 0x0A (buffer @ c)"
  have IH: "read_loop P (last ?L) cs e
      = run_lines P (complete_lines (last ?L @ concat cs)) e"
    by (rule Cons.IH) (rule last_str_split_no_sep)
  have split: "complete_lines (buffer @ concat (c # cs))
      = complete_lines (buffer @ c) @ complete_lines (last ?L @ concat cs)"
    using complete_lines_append [of "buffer @ c" "concat cs"] by simp
  obtain ms fin where pl: "process_lines P (butlast ?L) = (ms, fin)"
    by (cases "process_lines P (butlast ?L)")
  obtain ms' fin' where pl': "process_lines P (complete_lines (last ?L @ concat cs)) = (ms', fin')"
    by (cases "process_lines P (complete_lines (last ?L @ concat cs))")
  show ?case
    unfolding split run_lines_def process_lines_append
    using pl pl' IH
    by (cases fin) (simp_all add: pop_str_split complete_lines_def run_lines_def)
qed

lemma generateChatCompletion_stream:
  assumes "ok r" "body r = Some s"
  shows "yielded (generateChatCompletion P env (Resolved r) p msgs tools)
           = fst (run_lines P (complete_lines (concat (chunks s))) (ending s))"
    and "ended (generateChatCompletion P env (Resolved r) p msgs tools)
           = snd (run_lines P (complete_lines (concat (chunks s))) (ending s))"
proof -
  obtain t q reqs where g: "getBearerToken env p = (t, q, reqs)"
    by (metis prod_cases3)
  have rl: "read_loop P [] (chunks s) (ending s)
      = run_lines P (complete_lines (concat (chunks s))) (ending s)"
    using read_loop_complete_lines [of "[]" P "chunks s" "ending s"] by simp
  show "yielded (generateChatCompletion P env (Resolved r) p msgs tools)
           = fst (run_lines P (complete_lines (concat (chunks s))) (ending s))"
    using assms rl by (simp add: generateChatCompletion_def g Let_def split: prod.splits)
  show "ended (generateChatCompletion P env (Resolved r) p msgs tools)
           = snd (run_lines P (complete_lines (concat (chunks s))) (ending s))"
    using assms rl by (simp add: generateChatCompletion_def g Let_def split: prod.splits)
qed

lemma generateChatCompletion_no_stream:
  assumes "\<not> (\<exists>r s. f = Resolved r \<and> ok r \<and> body r = Some s)"
  shows "yielded (generateChatCompletion P env f p msgs tools) = []"
proof -
  obtain t q reqs where g: "getBearerToken env p = (t, q, reqs)"
    by (metis prod_cases3)
  show ?thesis
    using assms
    by (cases f) (auto simp: generateChatCompletion_def g Let_def split: option.splits)
qed

lemma fst_run_lines [simp]: "fst (run_lines P ls e) = fst (process_lines P ls)"
  by (cases "process_lines P ls") (simp add: run_lines_def)

lemma snd_run_lines_returned:
  "snd (process_lines P ls) \<Longrightarrow> snd (run_lines P ls e) = Returned"
  by (cases "process_lines P ls") (simp add: run_lines_def)

lemma snd_run_lines_end [simp]: "snd (run_lines P ls EndOfStream) = Returned"
  by (cases "process_lines P ls") (simp add: run_lines_def end_outcome_def)

lemma removed_line:
  assumes "process_line P line = Skipped" "CHR 0x0A \<notin> set line"
    "before = [] \<or> last before = CHR 0x0A"
  shows "process_lines P (complete_lines (before @ line @ [CHR 0x0A] @ after))
         = process_lines P (complete_lines (before @ after))"
proof -
  have "complete_lines (before @ line @ [CHR 0x0A] @ after)
        = complete_lines before @ line # complete_lines after"
    using complete_lines_after_newline [OF assms(3)] complete_lines_line [OF assms(2)] by simp
  moreover have "complete_lines (before @ after) = complete_lines before @ complete_lines after"
    by (rule complete_lines_after_newline [OF assms(3)])
  ultimately show ?thesis
    using process_lines_skip [OF assms(1)] by simp
qed

lemma parse_hello: "parse_chat_line hello_line = Some hello_record"
  unfolding hello_line_def hello_record_def by code_simp

lemma parse_usage: "parse_chat_line usage_line = Some usage_record"
  unfolding usage_line_def usage_record_def by code_simp

lemma parse_malformed: "parse_chat_line malformed_line = None"
  unfolding malformed_line_def by code_simp

lemma parse_done_marker: "parse_chat_line ''[DONE]'' = None"
  by code_simp

lemma ok_streaming_response: "ok (streaming_response cs)"
  by (simp add: streaming_response_def ok_def)

lemma body_streaming_response:
  "body (streaming_response cs) = Some \<lparr> chunks = cs, ending = EndOfStream \<rparr>"
  by (simp add: streaming_response_def)

lemma newline_free_examples:
  "CHR 0x0A \<notin> set hello_line" "CHR 0x0A \<notin> set usage_line" "CHR 0x0A \<notin> set malformed_line"
  "CHR 0x0A \<notin> set ''[DONE]''"
  by (simp_all add: hello_line_def usage_line_def malformed_line_def)

lemma non_blank_examples:
  "trim hello_line \<noteq> []" "trim usage_line \<noteq> []"
  by (simp_all add: hello_line_def usage_line_def trim_def is_space_def)

lemma example_messages:
  "streamingMessage hello_record = hello_message" "finalMessage usage_record = usage_message"
  by (simp_all add: streamingMessage_def finalMessage_def hello_record_def usage_record_def
      hello_message_def usage_message_def or_num_def)

subsection \<open>Chunk boundaries\<close>

text \<open>
  C4. However the same text is cut into network chunks, the generator carries the
  unfinished line over from one read to the next, so a line that spans two reads is one
  frame: two streams with the same text and the same end yield the same messages and end
  alike. What follows the last line feed when the stream ends is dropped without an
  error: a further chunk without line feed changes nothing, and the generator returns.
  The messages are those of the complete lines of the whole text, in order.
\<close>

theorem chunk_boundaries_do_not_matter:
  assumes "ok r" "body r = Some s" "ok r'" "body r' = Some s'"
  shows "(concat (chunks s) = concat (chunks s') \<and> ending s = ending s' \<longrightarrow>
            yielded (generateChatCompletion JSON_parse env (Resolved r) p msgs tools)
              = yielded (generateChatCompletion JSON_parse env' (Resolved r') p' msgs' tools')
            \<and> ended (generateChatCompletion JSON_parse env (Resolved r) p msgs tools)
              = ended (generateChatCompletion JSON_parse env' (Resolved r') p' msgs' tools'))
       \<and> (chunks s' = chunks s @ [tail] \<and> CHR 0x0A \<notin> set tail
            \<and> ending s = EndOfStream \<and> ending s' = EndOfStream \<longrightarrow>
            yielded (generateChatCompletion JSON_parse env' (Resolved r') p' msgs' tools')
              = yielded (generateChatCompletion JSON_parse env (Resolved r) p msgs tools)
            \<and> ended (generateChatCompletion JSON_parse env' (Resolved r') p' msgs' tools')
              = Returned)
       \<and> yielded (generateChatCompletion JSON_parse env (Resolved r) p msgs tools)
           = fst (process_lines JSON_parse (complete_lines (concat (chunks s))))"
proof -
  note a = generateChatCompletion_stream [OF assms(1,2), of JSON_parse env p msgs tools]
  note b = generateChatCompletion_stream [OF assms(3,4), of JSON_parse env' p' msgs' tools']
  have same: "concat (chunks s) = concat (chunks s') \<and> ending s = ending s' \<longrightarrow>
            yielded (generateChatCompletion JSON_parse env (Resolved r) p msgs tools)
              = yielded (generateChatCompletion JSON_parse env' (Resolved r') p' msgs' tools')
            \<and> ended (generateChatCompletion JSON_parse env (Resolved r) p msgs tools)
              = ended (generateChatCompletion JSON_parse env' (Resolved r') p' msgs' tools')"
    unfolding a b by simp
  have trailing: "chunks s' = chunks s @ [tail] \<and> CHR 0x0A \<notin> set tail
            \<and> ending s = EndOfStream \<and> ending s' = EndOfStream \<longrightarrow>
            yielded (generateChatCompletion JSON_parse env' (Resolved r') p' msgs' tools')
              = yielded (generateChatCompletion JSON_parse env (Resolved r) p msgs tools)
            \<and> ended (generateChatCompletion JSON_parse env' (Resolved r') p' msgs' tools')
              = Returned"
    unfolding a b by (auto simp: complete_lines_tail)
  have lines: "yielded (generateChatCompletion JSON_parse env (Resolved r) p msgs tools)
           = fst (process_lines JSON_parse (complete_lines (concat (chunks s))))"
    unfolding a by simp
  show ?thesis using same trailing lines by blast
qed

theorem chunk_boundaries_do_not_matter_witness:
  "yielded (generateChatCompletion parse_chat_line idle_env
       (Resolved (streaming_response
          [take 20 hello_line, drop 20 hello_line @ nl @ usage_line, nl]))
       local_provider [] None)
     = yielded (generateChatCompletion parse_chat_line idle_env
         (Resolved (streaming_response [hello_line @ nl @ usage_line @ nl]))
         local_provider [] None)
   \<and> yielded (generateChatCompletion parse_chat_line idle_env
       (Resolved (streaming_response [hello_line @ nl, take 20 hello_line]))
       local_provider [] None)
     = yielded (generateChatCompletion parse_chat_line idle_env
         (Resolved (streaming_response [hello_line @ nl]))
         local_provider [] None)
   \<and> ended (generateChatCompletion parse_chat_line idle_env
       (Resolved (streaming_response [hello_line @ nl, take 20 hello_line]))
       local_provider [] None) = Returned"
proof -
  let ?cut = "[take 20 hello_line, drop 20 hello_line @ nl @ usage_line, nl]"
  let ?whole = "[hello_line @ nl @ usage_line @ nl]"
  let ?more = "[hello_line @ nl, take 20 hello_line]"
  let ?less = "[hello_line @ nl]"
  have c: "concat ?cut = concat ?whole"
    by simp
  have n: "CHR 0x0A \<notin> set (take 20 hello_line)"
    using newline_free_examples(1) by (meson in_set_takeD)
  from chunk_boundaries_do_not_matter
    [where r = "streaming_response ?cut" and s = "\<lparr> chunks = ?cut, ending = EndOfStream \<rparr>"
       and r' = "streaming_response ?whole"
       and s' = "\<lparr> chunks = ?whole, ending = EndOfStream \<rparr>"
       and JSON_parse = parse_chat_line and env = idle_env and p = local_provider
       and msgs = "[]" and tools = None and env' = idle_env and p' = local_provider
       and msgs' = "[]" and tools' = None,
     OF ok_streaming_response body_streaming_response
        ok_streaming_response body_streaming_response] c
  have 1: "yielded (generateChatCompletion parse_chat_line idle_env
       (Resolved (streaming_response ?cut)) local_provider [] None)
     = yielded (generateChatCompletion parse_chat_line idle_env
         (Resolved (streaming_response ?whole)) local_provider [] None)"
    by simp
  from chunk_boundaries_do_not_matter
    [where r = "streaming_response ?less" and s = "\<lparr> chunks = ?less, ending = EndOfStream \<rparr>"
       and r' = "streaming_response ?more"
       and s' = "\<lparr> chunks = ?more, ending = EndOfStream \<rparr>"
       and tail = "take 20 hello_line"
       and JSON_parse = parse_chat_line and env = idle_env and p = local_provider
       and msgs = "[]" and tools = None and env' = idle_env and p' = local_provider
       and msgs' = "[]" and tools' = None,
     OF ok_streaming_response body_streaming_response
        ok_streaming_response body_streaming_response] n
  have 2: "yielded (generateChatCompletion parse_chat_line idle_env
       (Resolved (streaming_response ?more)) local_provider [] None)
     = yielded (generateChatCompletion parse_chat_line idle_env
         (Resolved (streaming_response ?less)) local_provider [] None)
     \<and> ended (generateChatCompletion parse_chat_line idle_env
       (Resolved (streaming_response ?more)) local_provider [] None) = Returned"
    by simp
  show ?thesis using 1 2 by simp
qed

subsection \<open>Lines that are not JSON\<close>

text \<open>
  C3. A line whose payload is not valid JSON is passed over and the lines after it are
  processed: the stream with the line yields the same messages and ends in the same way
  as the stream without it, so the line aborts nothing and produces no message.
\<close>

theorem malformed_line_is_skipped:
  assumes "ok r" "body r = Some s" "ok r'" "body r' = Some s'" "ending s' = ending s"
    and "JSON_parse line = None" and "CHR 0x0A \<notin> set line"
    and "before = [] \<or> last before = CHR 0x0A"
    and "concat (chunks s) = before @ line @ [CHR 0x0A] @ after"
    and "concat (chunks s') = before @ after"
  shows "process_line JSON_parse line = Skipped
       \<and> yielded (generateChatCompletion JSON_parse env (Resolved r) p msgs tools)
           = yielded (generateChatCompletion JSON_parse env' (Resolved r') p' msgs' tools')
       \<and> ended (generateChatCompletion JSON_parse env (Resolved r) p msgs tools)
           = ended (generateChatCompletion JSON_parse env' (Resolved r') p' msgs' tools')"
proof -
  have skip: "process_line JSON_parse line = Skipped"
    using assms(6) by (simp add: process_line_def)
  have "process_lines JSON_parse (complete_lines (concat (chunks s)))
        = process_lines JSON_parse (complete_lines (concat (chunks s')))"
    unfolding assms(9,10) by (rule removed_line [OF skip assms(7,8)])
  then have "run_lines JSON_parse (complete_lines (concat (chunks s))) (ending s)
        = run_lines JSON_parse (complete_lines (concat (chunks s'))) (ending s')"
    by (simp add: run_lines_def assms(5))
  then show ?thesis
    using skip
    by (simp add: generateChatCompletion_stream [OF assms(1,2)]
        generateChatCompletion_stream [OF assms(3,4)])
qed

theorem malformed_line_is_skipped_witness:
  "process_line parse_chat_line malformed_line = Skipped
   \<and> yielded (generateChatCompletion parse_chat_line idle_env
       (Resolved (streaming_response
          [hello_line @ nl, malformed_line @ nl @ usage_line @ nl]))
       local_provider [] None)
     = yielded (generateChatCompletion parse_chat_line idle_env
         (Resolved (streaming_response [hello_line @ nl, usage_line @ nl]))
         local_provider [] None)
   \<and> ended (generateChatCompletion parse_chat_line idle_env
       (Resolved (streaming_response
          [hello_line @ nl, malformed_line @ nl @ usage_line @ nl]))
       local_provider [] None)
     = ended (generateChatCompletion parse_chat_line idle_env
         (Resolved (streaming_response [hello_line @ nl, usage_line @ nl]))
         local_provider [] None)"
proof -
  let ?bad = "[hello_line @ nl, malformed_line @ nl @ usage_line @ nl]"
  let ?good = "[hello_line @ nl, usage_line @ nl]"
  have e: "ending \<lparr> chunks = ?good, ending = EndOfStream \<rparr>
           = ending \<lparr> chunks = ?bad, ending = EndOfStream \<rparr>"
    by simp
  have b: "hello_line @ nl = [] \<or> last (hello_line @ nl) = CHR 0x0A"
    by (simp add: nl_def)
  have c1: "concat (chunks \<lparr> chunks = ?bad, ending = EndOfStream \<rparr>)
            = (hello_line @ nl) @ malformed_line @ [CHR 0x0A] @ (usage_line @ nl)"
    by (simp add: nl_def)
  have c2: "concat (chunks \<lparr> chunks = ?good, ending = EndOfStream \<rparr>)
            = (hello_line @ nl) @ (usage_line @ nl)"
    by simp
  show ?thesis
    by (rule malformed_line_is_skipped
        [where r = "streaming_response ?bad"
           and s = "\<lparr> chunks = ?bad, ending = EndOfStream \<rparr>"
           and r' = "streaming_response ?good"
           and s' = "\<lparr> chunks = ?good, ending = EndOfStream \<rparr>"
           and before = "hello_line @ nl" and line = malformed_line
           and after = "usage_line @ nl" and JSON_parse = parse_chat_line,
         OF ok_streaming_response body_streaming_response
            ok_streaming_response body_streaming_response e parse_malformed
            newline_free_examples(3) b c1 c2])
qed

text \<open>
  C5, as amended. A payload line that is the literal string \<^verbatim>\<open>[DONE]\<close> produces no
  message and does not end the stream: it is not JSON, so it is passed over like any
  other such line, and the lines after it are processed. The stream with the marker
  yields the same messages and ends in the same way as the stream without it.
\<close>

theorem done_marker_is_skipped:
  assumes "ok r" "body r = Some s" "ok r'" "body r' = Some s'" "ending s' = ending s"
    and "JSON_parse ''[DONE]'' = None"
    and "before = [] \<or> last before = CHR 0x0A"
    and "concat (chunks s) = before @ ''[DONE]'' @ [CHR 0x0A] @ after"
    and "concat (chunks s') = before @ after"
  shows "process_line JSON_parse ''[DONE]'' = Skipped
       \<and> yielded (generateChatCompletion JSON_parse env (Resolved r) p msgs tools)
           = yielded (generateChatCompletion JSON_parse env' (Resolved r') p' msgs' tools')
       \<and> ended (generateChatCompletion JSON_parse env (Resolved r) p msgs tools)
           = ended (generateChatCompletion JSON_parse env' (Resolved r') p' msgs' tools')"
proof -
  have skip: "process_line JSON_parse ''[DONE]'' = Skipped"
    using assms(6) by (simp add: process_line_def)
  have "process_lines JSON_parse (complete_lines (concat (chunks s)))
        = process_lines JSON_parse (complete_lines (concat (chunks s')))"
    unfolding assms(8,9) by (rule removed_line [OF skip newline_free_examples(4) assms(7)])
  then have "run_lines JSON_parse (complete_lines (concat (chunks s))) (ending s)
        = run_lines JSON_parse (complete_lines (concat (chunks s'))) (ending s')"
    by (simp add: run_lines_def assms(5))
  then show ?thesis
    using skip
    by (simp add: generateChatCompletion_stream [OF assms(1,2)]
        generateChatCompletion_stream [OF assms(3,4)])
qed

theorem done_marker_is_skipped_witness:
  "process_line parse_chat_line ''[DONE]'' = Skipped
   \<and> yielded (generateChatCompletion parse_chat_line idle_env
       (Resolved (streaming_response [''[DONE]'' @ nl @ hello_line @ nl]))
       local_provider [] None)
     = yielded (generateChatCompletion parse_chat_line idle_env
         (Resolved (streaming_response [hello_line @ nl]))
         local_provider [] None)
   \<and> ended (generateChatCompletion parse_chat_line idle_env
       (Resolved (streaming_response [''[DONE]'' @ nl @ hello_line @ nl]))
       local_provider [] None)
     = ended (generateChatCompletion parse_chat_line idle_env
         (Resolved (streaming_response [hello_line @ nl]))
         local_provider [] None)"
proof -
  let ?marked = "[''[DONE]'' @ nl @ hello_line @ nl]"
  let ?plain = "[hello_line @ nl]"
  have e: "ending \<lparr> chunks = ?plain, ending = EndOfStream \<rparr>
           = ending \<lparr> chunks = ?marked, ending = EndOfStream \<rparr>"
    by simp
  have b: "([] :: string) = [] \<or> last [] = CHR 0x0A"
    by simp
  have c1: "concat (chunks \<lparr> chunks = ?marked, ending = EndOfStream \<rparr>)
            = [] @ ''[DONE]'' @ [CHR 0x0A] @ (hello_line @ nl)"
    by (simp add: nl_def)
  have c2: "concat (chunks \<lparr> chunks = ?plain, ending = EndOfStream \<rparr>)
            = [] @ (hello_line @ nl)"
    by simp
  show ?thesis
    by (rule done_marker_is_skipped
        [where r = "streaming_response ?marked"
           and s = "\<lparr> chunks = ?marked, ending = EndOfStream \<rparr>"
           and r' = "streaming_response ?plain"
           and s' = "\<lparr> chunks = ?plain, ending = EndOfStream \<rparr>"
           and before = "[]" and after = "hello_line @ nl"
           and JSON_parse = parse_chat_line,
         OF ok_streaming_response body_streaming_response
            ok_streaming_response body_streaming_response e parse_done_marker b c1 c2])
qed

text \<open>
  The claim as it stands fails: after the marker the stream goes on, and the record that
  follows it is yielded.
\<close>

theorem done_marker_is_skipped_counterexample:
  "yielded (generateChatCompletion parse_chat_line idle_env
       (Resolved (streaming_response [''[DONE]'' @ nl @ hello_line @ nl]))
       local_provider [] None) = [hello_message]"
proof -
  have "complete_lines (''[DONE]'' @ CHR 0x0A # hello_line @ [CHR 0x0A]) = [''[DONE]'', hello_line]"
    using complete_lines_line [OF newline_free_examples(4), of "hello_line @ [CHR 0x0A]"]
      complete_lines_line [OF newline_free_examples(1), of "[]"]
    by (simp add: complete_lines_def)
  then have "process_lines parse_chat_line (complete_lines (concat [''[DONE]'' @ nl @ hello_line @ nl]))
      = ([hello_message], False)"
    using non_blank_examples(1) example_messages(1)
    by (simp add: nl_def process_line_def parse_done_marker parse_hello hello_record_def)
  then show ?thesis
    using generateChatCompletion_stream(1)
      [where r = "streaming_response [''[DONE]'' @ nl @ hello_line @ nl]",
       OF ok_streaming_response body_streaming_response]
    by simp
qed

subsection \<open>The record with done\<close>

text \<open>
  C9. After the message of the first record with \<^verbatim>\<open>done\<close> the generator returns at
  once: whatever text follows that line, in the same chunk or in later ones, and however
  the stream ends, the messages are those of the lines before it and then the final
  message, and the generator returns. In every run, a message that carries usage is the
  last one yielded.
\<close>

theorem returns_after_first_done_record:
  assumes "ok r" "body r = Some s"
    and "concat (chunks s) = before @ line @ [CHR 0x0A] @ after"
    and "before = [] \<or> last before = CHR 0x0A" and "CHR 0x0A \<notin> set line"
    and "\<not> snd (process_lines JSON_parse (complete_lines before))"
    and "trim line \<noteq> []" and "JSON_parse line = Some data" and "done_flag data"
  shows "yielded (generateChatCompletion JSON_parse env (Resolved r) p msgs tools)
           = fst (process_lines JSON_parse (complete_lines before)) @ [finalMessage data]
       \<and> ended (generateChatCompletion JSON_parse env (Resolved r) p msgs tools) = Returned
       \<and> (\<forall>i < length (yielded (generateChatCompletion JSON_parse env' f p' msgs' tools')).
            usage (yielded (generateChatCompletion JSON_parse env' f p' msgs' tools') ! i) \<noteq> None
            \<longrightarrow> Suc i = length (yielded (generateChatCompletion JSON_parse env' f p' msgs' tools')))"
proof -
  have fin: "process_line JSON_parse line = Finished (finalMessage data)"
    using assms(7,8,9) by (simp add: process_line_def)
  have "complete_lines (concat (chunks s)) = complete_lines before @ line # complete_lines after"
    unfolding assms(3)
    using complete_lines_after_newline [OF assms(4)] complete_lines_line [OF assms(5)] by simp
  then have pl: "process_lines JSON_parse (complete_lines (concat (chunks s)))
      = (fst (process_lines JSON_parse (complete_lines before)) @ [finalMessage data], True)"
    using process_lines_finish [OF assms(6) fin] by simp
  have 1: "yielded (generateChatCompletion JSON_parse env (Resolved r) p msgs tools)
           = fst (process_lines JSON_parse (complete_lines before)) @ [finalMessage data]"
    using pl by (simp add: generateChatCompletion_stream [OF assms(1,2)])
  have 2: "ended (generateChatCompletion JSON_parse env (Resolved r) p msgs tools) = Returned"
    using pl snd_run_lines_returned [of JSON_parse "complete_lines (concat (chunks s))" "ending s"]
    by (simp add: generateChatCompletion_stream [OF assms(1,2)])
  have 3: "Suc i = length (yielded (generateChatCompletion JSON_parse env' f p' msgs' tools'))"
    if "i < length (yielded (generateChatCompletion JSON_parse env' f p' msgs' tools'))"
      and "usage (yielded (generateChatCompletion JSON_parse env' f p' msgs' tools') ! i) \<noteq> None"
    for i
  proof (cases "\<exists>r' s'. f = Resolved r' \<and> ok r' \<and> body r' = Some s'")
    case True
    then obtain r' s' where f: "f = Resolved r'" "ok r'" "body r' = Some s'"
      by blast
    show ?thesis
      using that process_lines_usage_last [of i JSON_parse "complete_lines (concat (chunks s'))"]
      by (simp add: f(1) generateChatCompletion_stream [OF f(2,3)])
  next
    case False
    then show ?thesis
      using that generateChatCompletion_no_stream [OF False] by simp
  qed
  show ?thesis using 1 2 3 by blast
qed

theorem returns_after_first_done_record_witness:
  "yielded (generateChatCompletion parse_chat_line idle_env
       (Resolved (streaming_response [hello_line @ nl @ usage_line @ nl @ hello_line @ nl]))
       local_provider [] None)
     = [hello_message, usage_message]
   \<and> ended (generateChatCompletion parse_chat_line idle_env
       (Resolved (streaming_response [hello_line @ nl @ usage_line @ nl @ hello_line @ nl]))
       local_provider [] None) = Returned"
proof -
  let ?cs = "[hello_line @ nl @ usage_line @ nl @ hello_line @ nl]"
  have c: "concat (chunks \<lparr> chunks = ?cs, ending = EndOfStream \<rparr>)
           = (hello_line @ nl) @ usage_line @ [CHR 0x0A] @ (hello_line @ nl)"
    by (simp add: nl_def)
  have b: "hello_line @ nl = [] \<or> last (hello_line @ nl) = CHR 0x0A"
    by (simp add: nl_def)
  have cl: "complete_lines (hello_line @ nl) = [hello_line]"
    using complete_lines_line [OF newline_free_examples(1), of "[]"]
    by (simp add: nl_def complete_lines_def)
  have before: "process_lines parse_chat_line (complete_lines (hello_line @ nl))
      = ([hello_message], False)"
    using non_blank_examples(1) example_messages(1)
    by (simp add: cl process_line_def parse_hello hello_record_def)
  then have nf: "\<not> snd (process_lines parse_chat_line (complete_lines (hello_line @ nl)))"
    by simp
  have d: "done_flag usage_record"
    by (simp add: usage_record_def)
  from returns_after_first_done_record
    [where r = "streaming_response ?cs" and s = "\<lparr> chunks = ?cs, ending = EndOfStream \<rparr>"
       and before = "hello_line @ nl" and line = usage_line and after = "hello_line @ nl"
       and JSON_parse = parse_chat_line and data = usage_record
       and env = idle_env and p = local_provider and msgs = "[]" and tools = None,
     OF ok_streaming_response body_streaming_response c b newline_free_examples(2) nf
        non_blank_examples(2) parse_usage d]
  show ?thesis
    by (simp add: before example_messages(2))
qed

subsection \<open>Usage totals\<close>

text \<open>
  C1. For every chat stream that consists of one record without \<^verbatim>\<open>done\<close> carrying
  content and then one record with \<^verbatim>\<open>done\<close> carrying \<^verbatim>\<open>prompt_eval_count\<close> 62 and
  \<^verbatim>\<open>eval_count\<close> 23, however it is cut into chunks, \<^verbatim>\<open>generateChatCompletion\<close> yields
  the message of the first record and then a final message whose usage is 62 prompt
  tokens, 23 completion tokens and 85 in total, the total being the sum of the two counts
  of the record with \<^verbatim>\<open>done\<close>.
\<close>

theorem usage_of_done_record:
  assumes "ok r" "body r = Some s"
    and "concat (chunks s) = line1 @ [CHR 0x0A] @ line2 @ [CHR 0x0A] @ after"
    and "CHR 0x0A \<notin> set line1" and "CHR 0x0A \<notin> set line2"
    and "trim line1 \<noteq> []" and "trim line2 \<noteq> []"
    and "JSON_parse line1 = Some d1" and "\<not> done_flag d1"
    and "JSON_parse line2 = Some d2" and "done_flag d2"
    and "prompt_eval_count d2 = Some 62" and "eval_count d2 = Some 23"
  shows "yielded (generateChatCompletion JSON_parse env (Resolved r) p msgs tools)
           = [streamingMessage d1, finalMessage d2]
       \<and> content (streamingMessage d1) = content (message d1)
       \<and> usage (last (yielded (generateChatCompletion JSON_parse env (Resolved r) p msgs tools)))
           = Some \<lparr> prompt_tokens = 62, completion_tokens = 23, total_tokens = 85 \<rparr>
       \<and> total_tokens (the (usage (finalMessage d2)))
           = or_num (prompt_eval_count d2) 0 + or_num (eval_count d2) 0
       \<and> ended (generateChatCompletion JSON_parse env (Resolved r) p msgs tools) = Returned"
proof -
  have l1: "process_line JSON_parse line1 = Yielded (streamingMessage d1)"
    using assms(6,8,9) by (simp add: process_line_def)
  have l2: "process_line JSON_parse line2 = Finished (finalMessage d2)"
    using assms(7,10,11) by (simp add: process_line_def)
  have "complete_lines (concat (chunks s)) = line1 # line2 # complete_lines after"
    unfolding assms(3)
    using complete_lines_line [OF assms(4), of "line2 @ [CHR 0x0A] @ after"]
      complete_lines_line [OF assms(5), of after]
    by simp
  then have pl: "process_lines JSON_parse (complete_lines (concat (chunks s)))
      = ([streamingMessage d1, finalMessage d2], True)"
    using l1 l2 by simp
  have 1: "yielded (generateChatCompletion JSON_parse env (Resolved r) p msgs tools)
           = [streamingMessage d1, finalMessage d2]"
    using pl by (simp add: generateChatCompletion_stream [OF assms(1,2)])
  have 2: "ended (generateChatCompletion JSON_parse env (Resolved r) p msgs tools) = Returned"
    using pl snd_run_lines_returned [of JSON_parse "complete_lines (concat (chunks s))" "ending s"]
    by (simp add: generateChatCompletion_stream [OF assms(1,2)])
  have 3: "usage (finalMessage d2)
      = Some \<lparr> prompt_tokens = 62, completion_tokens = 23, total_tokens = 85 \<rparr>"
    using assms(12,13) by (simp add: finalMessage_def or_num_def)
  have 4: "content (streamingMessage d1) = content (message d1)"
    by (simp add: streamingMessage_def)
  have 5: "total_tokens (the (usage (finalMessage d2)))
           = or_num (prompt_eval_count d2) 0 + or_num (eval_count d2) 0"
    by (simp add: finalMessage_def)
  show ?thesis
    unfolding 1 using 2 3 4 5 by simp
qed

theorem usage_of_done_record_witness:
  "yielded (generateChatCompletion parse_chat_line idle_env
       (Resolved (streaming_response
          [take 30 hello_line, drop 30 hello_line @ nl @ take 50 usage_line,
           drop 50 usage_line @ nl]))
       local_provider [] None)
     = [hello_message, usage_message]
   \<and> usage (last (yielded (generateChatCompletion parse_chat_line idle_env
       (Resolved (streaming_response
          [take 30 hello_line, drop 30 hello_line @ nl @ take 50 usage_line,
           drop 50 usage_line @ nl]))
       local_provider [] None)))
     = Some \<lparr> prompt_tokens = 62, completion_tokens = 23, total_tokens = 85 \<rparr>"
proof -
  let ?cs = "[take 30 hello_line, drop 30 hello_line @ nl @ take 50 usage_line,
              drop 50 usage_line @ nl]"
  have c: "concat (chunks \<lparr> chunks = ?cs, ending = EndOfStream \<rparr>)
           = hello_line @ [CHR 0x0A] @ usage_line @ [CHR 0x0A] @ []"
    by (simp add: nl_def)
  have d: "\<not> done_flag hello_record" "done_flag usage_record"
    "prompt_eval_count usage_record = Some 62" "eval_count usage_record = Some 23"
    by (simp_all add: hello_record_def usage_record_def)
  from usage_of_done_record
    [where r = "streaming_response ?cs" and s = "\<lparr> chunks = ?cs, ending = EndOfStream \<rparr>"
       and ?line1.0 = hello_line and ?line2.0 = usage_line and after = "[]"
       and JSON_parse = parse_chat_line and ?d1.0 = hello_record and ?d2.0 = usage_record
       and env = idle_env and p = local_provider and msgs = "[]" and tools = None,
     OF ok_streaming_response body_streaming_response c newline_free_examples(1,2)
        non_blank_examples parse_hello d(1) parse_usage d(2,3,4)]
  show ?thesis
    by (simp add: example_messages usage_message_def)
qed

end
